theory Spec2Isabelle
  imports Complex_Main "HOL-Library.Sublist" "HOL-Library.Code_Target_Nat"
begin

section \<open>Strings\<close>

text \<open>
  A JavaScript string is the list of its UTF-16 code units, each a number below 65536;
  \<open>length\<close> is its \<open>.length\<close>. \<open>str\<close> writes an ASCII literal as such a list.
\<close>

type_synonym jsString = "nat list"

definition str :: "string \<Rightarrow> jsString" where
  "str s = map of_char s"

text \<open>
  \<open>String.prototype.toLowerCase\<close>, code unit by code unit. The letters A to Z are
  folded; U+0130 (capital I with dot above) becomes the two code units of i and U+0307;
  the Kelvin sign U+212A becomes k. Every other code unit stays as it is here: its
  lowercase form in JavaScript has the same number of code units and none of them is
  ASCII, and the program looks at the lowercased text only for its length, for ASCII
  keywords and digits and for the classes of the regular expressions below.
\<close>

definition toLowerUnit :: "nat \<Rightarrow> jsString" where
  "toLowerUnit c =
     (if 0x41 \<le> c \<and> c \<le> 0x5A then [c + 0x20]
      else if c = 0x130 then [0x69, 0x307]
      else if c = 0x212A then [0x6B]
      else [c])"

definition toLowerCase :: "jsString \<Rightarrow> jsString" where
  "toLowerCase s = concat (map toLowerUnit s)"

text \<open>\<open>text.includes(kw)\<close>: the keyword occurs at some position of the text.\<close>

fun includesStr :: "jsString \<Rightarrow> jsString \<Rightarrow> bool" where
  "includesStr [] kw = (kw = [])"
| "includesStr (c # cs) kw = (prefix kw (c # cs) \<or> includesStr cs kw)"

text \<open>
  The character classes of the regular expressions (without the \<open>u\<close> flag): \<open>\s\<close> is
  the white space and line terminators of ECMAScript, \<open>\d\<close> the ASCII digits, \<open>\w\<close> the
  ASCII letters, digits and the underscore.
\<close>

definition isSpaceChar :: "nat \<Rightarrow> bool" where
  "isSpaceChar c =
     (c \<in> set [0x09, 0x0A, 0x0B, 0x0C, 0x0D, 0x20, 0xA0, 0x1680, 0x2028, 0x2029, 0x202F,
               0x205F, 0x3000, 0xFEFF]
      \<or> (0x2000 \<le> c \<and> c \<le> 0x200A))"

definition isDigitChar :: "nat \<Rightarrow> bool" where
  "isDigitChar c = (0x30 \<le> c \<and> c \<le> 0x39)"

definition isWordChar :: "nat \<Rightarrow> bool" where
  "isWordChar c =
     ((0x61 \<le> c \<and> c \<le> 0x7A) \<or> (0x41 \<le> c \<and> c \<le> 0x5A) \<or> (0x30 \<le> c \<and> c \<le> 0x39)
      \<or> c = 0x5F)"

text \<open>
  The two id patterns have the shape \<open>/(?:t1|t2|...)\s*[#:]?\s*(\d+)/i\<close> and are run on
  the lowercased text, where the \<open>i\<close> flag changes nothing. \<open>captureDigits\<close> matches
  \<open>\s*[#:]?\s*(\d+)\<close> at the start of its argument and returns the capture group;
  \<open>matchTriggerAt\<close> tries the alternatives in their order at one position;
  \<open>regexIdMatch\<close> takes the leftmost position that matches.
\<close>

definition captureDigits :: "jsString \<Rightarrow> jsString option" where
  "captureDigits rest =
     (let r1 = dropWhile isSpaceChar rest;
          r2 = (case r1 of [] \<Rightarrow> []
                | c # cs \<Rightarrow> if c = 0x23 \<or> c = 0x3A then cs else r1);
          r3 = dropWhile isSpaceChar r2;
          ds = takeWhile isDigitChar r3
      in if ds = [] then None else Some ds)"

fun matchTriggerAt :: "jsString list \<Rightarrow> jsString \<Rightarrow> jsString option" where
  "matchTriggerAt [] txt = None"
| "matchTriggerAt (t # ts) txt =
     (if prefix t txt
      then (case captureDigits (drop (length t) txt) of
              Some ds \<Rightarrow> Some ds
            | None \<Rightarrow> matchTriggerAt ts txt)
      else matchTriggerAt ts txt)"

fun regexIdMatch :: "jsString list \<Rightarrow> jsString \<Rightarrow> jsString option" where
  "regexIdMatch triggers [] = matchTriggerAt triggers []"
| "regexIdMatch triggers (c # cs) =
     (case matchTriggerAt triggers (c # cs) of
        Some ds \<Rightarrow> Some ds
      | None \<Rightarrow> regexIdMatch triggers cs)"

text \<open>
  \<open>new RegExp(`\\b${s}\\b`, "i").test(text)\<close>: the keyword stands at some position
  with a word boundary on each side. A boundary lies between two neighbours of which
  exactly one is a word character; the ends of the text count as non-word.
\<close>

definition isWordOpt :: "nat option \<Rightarrow> bool" where
  "isWordOpt c = (case c of None \<Rightarrow> False | Some x \<Rightarrow> isWordChar x)"

definition atWordBoundary :: "nat option \<Rightarrow> nat option \<Rightarrow> bool" where
  "atWordBoundary before after = (isWordOpt before \<noteq> isWordOpt after)"

definition headOpt :: "jsString \<Rightarrow> nat option" where
  "headOpt s = (case s of [] \<Rightarrow> None | c # _ \<Rightarrow> Some c)"

definition matchWordAt :: "jsString \<Rightarrow> nat option \<Rightarrow> jsString \<Rightarrow> bool" where
  "matchWordAt s prev txt =
     (prefix s txt \<and> atWordBoundary prev (headOpt txt) \<and>
      atWordBoundary (if s = [] then prev else Some (last s)) (headOpt (drop (length s) txt)))"

fun wordRegexTest :: "jsString \<Rightarrow> nat option \<Rightarrow> jsString \<Rightarrow> bool" where
  "wordRegexTest s prev [] = matchWordAt s prev []"
| "wordRegexTest s prev (c # cs) = (matchWordAt s prev (c # cs) \<or> wordRegexTest s (Some c) cs)"

section \<open>Entity extraction (EntityExtractor.ts)\<close>

datatype OrderAction = Cancel | Return | Refund

record ExtractedEntities =
  product_name :: "jsString option"
  product_keywords :: "jsString list option"
  color :: "jsString option"
  size' :: "jsString option"
  category :: "jsString option"
  order_id :: "jsString option"
  order_keywords :: "jsString list option"
  user_status :: "bool option"
  user_id :: "jsString option"
  menu_query :: "bool option"
  order_action :: "OrderAction option"
  general_faq :: "bool option"

text \<open>The empty object \<open>{}\<close>: no key is present.\<close>

definition emptyEntities :: ExtractedEntities where
  "emptyEntities =
     \<lparr>product_name = None, product_keywords = None, color = None, size' = None,
      category = None, order_id = None, order_keywords = None, user_status = None,
      user_id = None, menu_query = None, order_action = None, general_faq = None\<rparr>"

text \<open>
  Truthiness of an optional field: an absent key is \<open>undefined\<close>, a string is truthy
  when it is not empty, an array is always truthy, a boolean is itself.
\<close>

definition truthyStr :: "jsString option \<Rightarrow> bool" where
  "truthyStr v = (case v of None \<Rightarrow> False | Some s \<Rightarrow> s \<noteq> [])"

definition truthyArr :: "'a list option \<Rightarrow> bool" where
  "truthyArr v = (case v of None \<Rightarrow> False | Some xs \<Rightarrow> True)"

definition truthyBool :: "bool option \<Rightarrow> bool" where
  "truthyBool v = (case v of None \<Rightarrow> False | Some b \<Rightarrow> b)"

definition COLOR_KEYWORDS :: "jsString list" where
  "COLOR_KEYWORDS = map str
    [''merah'',''biru'',''hijau'',''kuning'',''hitam'',''putih'',''abu'',''abu-abu'',
     ''coklat'',''ungu'',''pink'',''oren'',''oranye'',''emas'',''silver'',
     ''red'',''blue'',''green'',''yellow'',''black'',''white'',''grey'',''gray'',
     ''brown'',''purple'',''pink'',''orange'',''gold'',''silver'']"

definition SIZE_KEYWORDS :: "jsString list" where
  "SIZE_KEYWORDS = map str
    [''s'',''m'',''l'',''xl'',''xxl'',''xxxl'',
     ''all size'',''all-size'',''allsz'',''jumbo'',''standar'',''standard'',
     ''28'',''29'',''30'',''31'',''32'',''33'',''34'',''35'',''36'',''37'',''38'',''39'',''40'',
     ''41'',''42'',''43'',''44'',''45'']"

definition PRODUCT_KEYWORDS :: "jsString list" where
  "PRODUCT_KEYWORDS = map str
    [''produk'',''barang'',''twill'',''manohara'',''standard'',''std'',''bahan'',''item'',''baju'',''pakaian'',
     ''dress'',''kemeja'',''celana'',''rok'',''jaket'',''sweater'',''kaos'',''t-shirt'',''jeans'',
     ''sepatu'',''shoes'',''sandal'',''tas'',''bag'',''aksesoris'',''accessories'',''topi'',''hat'',
     ''kacamata'',''glasses'',''jam tangan'',''watch'',''perhiasan'',''jewelry'',''gelang'',''bracelet'',
     ''kalung'',''necklace'',''cincin'',''ring'',''anting'',''earrings'',''syal'',''scarf'',''belt'',''ikat pinggang'',
     ''dompet'',''wallet'',''cari'',''search'',''find'',''temukan'',''rekomendasi'',''recommendation'']"

definition ORDER_KEYWORDS :: "jsString list" where
  "ORDER_KEYWORDS = map str
    [''order'',''pesanan'',''pembelian'',''purchase'',''tracking'',''lacak'',''status'',
     ''pengiriman'',''delivery'',''shipment'',''resi'',''receipt'',''invoice'',''faktur'',
     ''pembayaran'',''payment'',''konfirmasi'',''confirmation'',''return'',''pengembalian'',
     ''refund'',''cancel'',''batal'',''complain'',''komplain'',''keluhan'',''nomor order'',
     ''order number'',''id pesanan'',''order id'',''cek pesanan'',''check order'']"

text \<open>The keyword to category table, in the order \<open>Object.entries\<close> lists it.\<close>

definition CATEGORY_KEYWORDS :: "(jsString \<times> jsString) list" where
  "CATEGORY_KEYWORDS = map (\<lambda>(kw, cat). (str kw, str cat))
    [(''dress'', ''gamis''), (''gaun'', ''gamis''),
     (''atasan'', ''setelan''), (''blouse'', ''setelan''), (''kemeja'', ''shirt''),
     (''baju'', ''tops''), (''pakaian'', ''setelan''), (''celana'', ''setelan''),
     (''jeans'', ''setelan''),
     (''rok'', ''setelan''), (''jaket'', ''setelan''), (''sweater'', ''setelan''),
     (''kaos'', ''setelan''), (''t-shirt'', ''setelan''),
     (''daster'', ''daster''), (''gamis'', ''gamis''), (''setelan'', ''setelan''),
     (''sepatu'', ''shoes''), (''shoes'', ''shoes''), (''sandal'', ''shoes''),
     (''tas'', ''bag''), (''bag'', ''bag''), (''topi'', ''hat''), (''hat'', ''hat''),
     (''dompet'', ''wallet'')]"

definition USER_STATUS_KEYWORDS :: "jsString list" where
  "USER_STATUS_KEYWORDS = map str
    [''status saya'',''status user'',''akun saya'',''membership'',''keanggotaan'',
     ''user status'',''my account'',''profil saya'']"

definition MENU_KEYWORDS :: "jsString list" where
  "MENU_KEYWORDS = map str
    [''menu'',''fitur'',''layanan'',''akses'',''apa saja yang bisa'',
     ''apa yang tersedia'',''what can i access'',''available menu'',''options'']"

definition GENERAL_FAQ_KEYWORDS :: "jsString list" where
  "GENERAL_FAQ_KEYWORDS = map str
    [''ini web apa'',''tentang'',''apa itu'',''siapa'',''company'',
     ''perusahaan'',''brand'',''official'',''resmi'',''apa fungsi'',''apa gunanya'']"

definition ORDER_ID_TRIGGERS :: "jsString list" where
  "ORDER_ID_TRIGGERS = map str
    [''order'',''pesanan'',''tracking'',''lacak'',''status'',''nomor'',''number'',''id'']"

definition USER_ID_TRIGGERS :: "jsString list" where
  "USER_ID_TRIGGERS = map str
    [''user'',''pengguna'',''member'',''anggota'',''akun'',''account'']"

text \<open>
  \<open>extractEntities\<close> fills the entity object block by block. Each block of the source
  is one step here, taking the lowercased message and the object built so far.
\<close>

definition categoryStep :: "jsString \<Rightarrow> ExtractedEntities \<Rightarrow> ExtractedEntities" where
  "categoryStep lm e =
     (case find (\<lambda>(kw, cat). includesStr lm kw) CATEGORY_KEYWORDS of
        Some (kw, cat) \<Rightarrow> e\<lparr>category := Some cat\<rparr>
      | None \<Rightarrow> e)"

definition defaultCategoryStep :: "ExtractedEntities \<Rightarrow> ExtractedEntities" where
  "defaultCategoryStep e =
     (if \<not> truthyStr (category e) \<and> (truthyArr (product_keywords e) \<or> truthyStr (product_name e))
      then e\<lparr>category := Some (str ''gamis'')\<rparr> else e)"

definition productStep :: "jsString \<Rightarrow> ExtractedEntities \<Rightarrow> ExtractedEntities" where
  "productStep lm e =
     (let productMatches = filter (\<lambda>kw. includesStr lm kw) PRODUCT_KEYWORDS
      in case productMatches of
           [] \<Rightarrow> e
         | first # _ \<Rightarrow> e\<lparr>product_keywords := Some productMatches, product_name := Some first\<rparr>)"

definition orderKeywordsStep :: "jsString \<Rightarrow> ExtractedEntities \<Rightarrow> ExtractedEntities" where
  "orderKeywordsStep lm e =
     (let orderMatches = filter (\<lambda>kw. includesStr lm kw) ORDER_KEYWORDS
      in if length orderMatches > 0 then e\<lparr>order_keywords := Some orderMatches\<rparr> else e)"

definition orderIdStep :: "jsString \<Rightarrow> ExtractedEntities \<Rightarrow> ExtractedEntities" where
  "orderIdStep lm e =
     (case regexIdMatch ORDER_ID_TRIGGERS lm of
        Some ds \<Rightarrow> if ds \<noteq> [] then e\<lparr>order_id := Some ds\<rparr> else e
      | None \<Rightarrow> e)"

definition orderActionStep :: "jsString \<Rightarrow> ExtractedEntities \<Rightarrow> ExtractedEntities" where
  "orderActionStep lm e =
     (if includesStr lm (str ''cancel'') \<or> includesStr lm (str ''batal'')
      then e\<lparr>order_action := Some Cancel\<rparr>
      else if includesStr lm (str ''return'') \<or> includesStr lm (str ''pengembalian'')
      then e\<lparr>order_action := Some Return\<rparr>
      else if includesStr lm (str ''refund'')
      then e\<lparr>order_action := Some Refund\<rparr>
      else e)"

definition colorStep :: "jsString \<Rightarrow> ExtractedEntities \<Rightarrow> ExtractedEntities" where
  "colorStep lm e =
     (let colorMatch = find (\<lambda>c. includesStr lm c) COLOR_KEYWORDS
      in if truthyStr colorMatch then e\<lparr>color := colorMatch\<rparr> else e)"

definition sizeStep :: "jsString \<Rightarrow> ExtractedEntities \<Rightarrow> ExtractedEntities" where
  "sizeStep lm e =
     (let sizeMatch = find (\<lambda>s. wordRegexTest s None lm) SIZE_KEYWORDS
      in if truthyStr sizeMatch then e\<lparr>size' := sizeMatch\<rparr> else e)"

definition userStatusStep :: "jsString \<Rightarrow> ExtractedEntities \<Rightarrow> ExtractedEntities" where
  "userStatusStep lm e =
     (if list_ex (\<lambda>kw. includesStr lm kw) USER_STATUS_KEYWORDS
      then e\<lparr>user_status := Some True\<rparr> else e)"

definition userIdStep :: "jsString \<Rightarrow> ExtractedEntities \<Rightarrow> ExtractedEntities" where
  "userIdStep lm e =
     (case regexIdMatch USER_ID_TRIGGERS lm of
        Some ds \<Rightarrow> if ds \<noteq> [] then e\<lparr>user_id := Some ds\<rparr> else e
      | None \<Rightarrow> e)"

definition menuQueryStep :: "jsString \<Rightarrow> ExtractedEntities \<Rightarrow> ExtractedEntities" where
  "menuQueryStep lm e =
     (if list_ex (\<lambda>kw. includesStr lm kw) MENU_KEYWORDS
      then e\<lparr>menu_query := Some True\<rparr> else e)"

definition generalFaqStep :: "jsString \<Rightarrow> ExtractedEntities \<Rightarrow> ExtractedEntities" where
  "generalFaqStep lm e =
     (if list_ex (\<lambda>kw. includesStr lm kw) GENERAL_FAQ_KEYWORDS
      then e\<lparr>general_faq := Some True\<rparr> else e)"

definition extractEntities :: "jsString \<Rightarrow> ExtractedEntities" where
  "extractEntities message =
     (let lowercaseMessage = toLowerCase message;
          entities = emptyEntities;
          entities = categoryStep lowercaseMessage entities;
          entities = defaultCategoryStep entities;
          entities = productStep lowercaseMessage entities;
          entities = orderKeywordsStep lowercaseMessage entities;
          entities = orderIdStep lowercaseMessage entities;
          entities = orderActionStep lowercaseMessage entities;
          entities = colorStep lowercaseMessage entities;
          entities = sizeStep lowercaseMessage entities;
          entities = userStatusStep lowercaseMessage entities;
          entities = userIdStep lowercaseMessage entities;
          entities = menuQueryStep lowercaseMessage entities;
          entities = generalFaqStep lowercaseMessage entities
      in entities)"

section \<open>Conversation state (ConversationState.ts)\<close>

text \<open>
  The intent enumeration and the string each member stands for at run time.
\<close>

datatype Intent =
  PRODUCT_SEARCH | ORDER_TRACKING | GREETING | GENERAL_QUERY | FALLBACK
  | USER_STATUS | MENU_QUERY | ORDER_ACTION | GENERAL_FAQ

fun intentValue :: "Intent \<Rightarrow> jsString" where
  "intentValue PRODUCT_SEARCH = str ''product_search''"
| "intentValue ORDER_TRACKING = str ''order_tracking''"
| "intentValue GREETING = str ''greeting''"
| "intentValue GENERAL_QUERY = str ''general_query''"
| "intentValue FALLBACK = str ''fallback''"
| "intentValue USER_STATUS = str ''user_status''"
| "intentValue MENU_QUERY = str ''menu_query''"
| "intentValue ORDER_ACTION = str ''order_action''"
| "intentValue GENERAL_FAQ = str ''general_faq''"

text \<open>
  The state of one session. \<open>currentIntent\<close> and \<open>previousIntents\<close> hold members of
  the intent enumeration (\<open>None\<close> is \<open>null\<close>); \<open>turnCount\<close> is a natural number; the
  entity bag of the state has the keys of \<open>ExtractedEntities\<close>. The fields
  \<open>entities\<close>, \<open>context\<close> and \<open>confidence\<close> of the state carry a prime here.
\<close>

record Context =
  lastMessage :: jsString
  lastResponse :: jsString
  previousIntents :: "Intent list"
  turnCount :: nat
  lastProductSearch :: "jsString option"
  lastOrderId :: "jsString option"

record ConversationState =
  sessionId :: jsString
  currentIntent :: "Intent option"
  entities' :: ExtractedEntities
  context' :: Context
  confidence' :: real

definition createConversationState :: "jsString \<Rightarrow> ConversationState" where
  "createConversationState sid =
     \<lparr>sessionId = sid, currentIntent = None, entities' = emptyEntities,
      context' = \<lparr>lastMessage = [], lastResponse = [], previousIntents = [],
                  turnCount = 0, lastProductSearch = None, lastOrderId = None\<rparr>,
      confidence' = 1.0\<rparr>"

text \<open>
  A partial update: every key may be absent (\<open>None\<close>). \<open>{...a, ...b}\<close> takes each key
  from \<open>b\<close> when \<open>b\<close> has it and from \<open>a\<close> otherwise.
\<close>

record ContextUpdate =
  c_lastMessage :: "jsString option"
  c_lastResponse :: "jsString option"
  c_previousIntents :: "Intent list option"
  c_turnCount :: "nat option"
  c_lastProductSearch :: "jsString option"
  c_lastOrderId :: "jsString option"

record StateUpdate =
  u_sessionId :: "jsString option"
  u_currentIntent :: "Intent option option"
  u_entities :: "ExtractedEntities option"
  u_context :: "ContextUpdate option"
  u_confidence :: "real option"

definition emptyContextUpdate :: ContextUpdate where
  "emptyContextUpdate =
     \<lparr>c_lastMessage = None, c_lastResponse = None, c_previousIntents = None,
      c_turnCount = None, c_lastProductSearch = None, c_lastOrderId = None\<rparr>"

definition emptyUpdate :: StateUpdate where
  "emptyUpdate =
     \<lparr>u_sessionId = None, u_currentIntent = None, u_entities = None, u_context = None,
      u_confidence = None\<rparr>"

definition spreadReq :: "'a \<Rightarrow> 'a option \<Rightarrow> 'a" where
  "spreadReq old new = (case new of None \<Rightarrow> old | Some v \<Rightarrow> v)"

definition spreadOpt :: "'a option \<Rightarrow> 'a option \<Rightarrow> 'a option" where
  "spreadOpt old new = (case new of None \<Rightarrow> old | Some v \<Rightarrow> Some v)"

definition spreadContext :: "Context \<Rightarrow> ContextUpdate \<Rightarrow> Context" where
  "spreadContext c u =
     \<lparr>lastMessage = spreadReq (lastMessage c) (c_lastMessage u),
      lastResponse = spreadReq (lastResponse c) (c_lastResponse u),
      previousIntents = spreadReq (previousIntents c) (c_previousIntents u),
      turnCount = spreadReq (turnCount c) (c_turnCount u),
      lastProductSearch = spreadOpt (lastProductSearch c) (c_lastProductSearch u),
      lastOrderId = spreadOpt (lastOrderId c) (c_lastOrderId u)\<rparr>"

definition spreadEntities :: "ExtractedEntities \<Rightarrow> ExtractedEntities \<Rightarrow> ExtractedEntities" where
  "spreadEntities a b =
     \<lparr>product_name = spreadOpt (product_name a) (product_name b),
      product_keywords = spreadOpt (product_keywords a) (product_keywords b),
      color = spreadOpt (color a) (color b),
      size' = spreadOpt (size' a) (size' b),
      category = spreadOpt (category a) (category b),
      order_id = spreadOpt (order_id a) (order_id b),
      order_keywords = spreadOpt (order_keywords a) (order_keywords b),
      user_status = spreadOpt (user_status a) (user_status b),
      user_id = spreadOpt (user_id a) (user_id b),
      menu_query = spreadOpt (menu_query a) (menu_query b),
      order_action = spreadOpt (order_action a) (order_action b),
      general_faq = spreadOpt (general_faq a) (general_faq b)\<rparr>"

definition updateConversationState :: "ConversationState \<Rightarrow> StateUpdate \<Rightarrow> ConversationState" where
  "updateConversationState state updates =
     \<lparr>sessionId = spreadReq (sessionId state) (u_sessionId updates),
      currentIntent = spreadReq (currentIntent state) (u_currentIntent updates),
      entities' = spreadEntities (entities' state)
                    (case u_entities updates of None \<Rightarrow> emptyEntities | Some e \<Rightarrow> e),
      context' = spreadContext (context' state)
                    (case u_context updates of None \<Rightarrow> emptyContextUpdate | Some c \<Rightarrow> c),
      confidence' = spreadReq (confidence' state) (u_confidence updates)\<rparr>"

section \<open>Intent classification (IntentClassifier.ts)\<close>

text \<open>
  A confidence is one of the decimal constants of the source; it is a real number here,
  and the only comparison the program makes (\<open>< 0.4\<close>) orders these constants as
  their double-precision values are ordered.
\<close>

record IntentClassification =
  intent :: Intent
  confidence :: real
  entities :: ExtractedEntities

definition GREETING_PATTERNS :: "jsString list" where
  "GREETING_PATTERNS = map str
    [''halo'', ''hello'', ''hi'', ''hey'', ''selamat pagi'', ''selamat siang'', ''selamat sore'',
     ''selamat malam'', ''good morning'', ''good afternoon'', ''good evening'', ''assalamualaikum'',
     ''permisi'', ''excuse me'', ''hai'', ''apa kabar'', ''how are you'']"

text \<open>
  The conditions of the rule cascade, each as the source writes it. The greeting loop
  returns at the first pattern that is included in a message shorter than 20.
\<close>

fun greetingRule :: "jsString \<Rightarrow> jsString list \<Rightarrow> bool" where
  "greetingRule lm [] = False"
| "greetingRule lm (pattern # rest) =
     (if includesStr lm pattern \<and> length lm < 20 then True else greetingRule lm rest)"

definition productRule :: "ExtractedEntities \<Rightarrow> bool" where
  "productRule e =
     (truthyArr (product_keywords e) \<or> truthyStr (product_name e) \<or> truthyStr (color e)
      \<or> truthyStr (size' e) \<or> truthyStr (category e))"

definition lengthTruthy :: "'a list option \<Rightarrow> bool" where
  "lengthTruthy v = (case v of None \<Rightarrow> False | Some xs \<Rightarrow> length xs \<noteq> 0)"

definition orderTrackingRule :: "ExtractedEntities \<Rightarrow> bool" where
  "orderTrackingRule e = (truthyArr (order_keywords e) \<or> truthyStr (order_id e))"

definition orderActionRule :: "ExtractedEntities \<Rightarrow> bool" where
  "orderActionRule e = (order_action e \<noteq> None)"

text \<open>
  \<open>state && state.currentIntent\<close>: the stored intent when a state is given and its
  intent is a truthy (non-empty) string.
\<close>

definition continuationIntent :: "ConversationState option \<Rightarrow> Intent option" where
  "continuationIntent state =
     (case state of
        None \<Rightarrow> None
      | Some s \<Rightarrow> (case currentIntent s of
                    None \<Rightarrow> None
                  | Some i \<Rightarrow> if intentValue i \<noteq> [] then Some i else None))"

definition classifyIntent :: "jsString \<Rightarrow> ConversationState option \<Rightarrow> IntentClassification" where
  "classifyIntent message state =
     (let lowercaseMessage = toLowerCase message;
          ents = extractEntities message
      in if greetingRule lowercaseMessage GREETING_PATTERNS
         then \<lparr>intent = GREETING, confidence = 0.9, entities = emptyEntities\<rparr>
         else if productRule ents
         then \<lparr>intent = PRODUCT_SEARCH,
               confidence = (if truthyStr (product_name ents) \<or> lengthTruthy (product_keywords ents)
                             then 0.85 else 0.7),
               entities = ents\<rparr>
         else if orderTrackingRule ents
         then \<lparr>intent = ORDER_TRACKING,
               confidence = (if truthyStr (order_id ents) then 0.9 else 0.75),
               entities = ents\<rparr>
         else if orderActionRule ents
         then \<lparr>intent = ORDER_ACTION, confidence = 0.85, entities = ents\<rparr>
         else if truthyBool (user_status ents)
         then \<lparr>intent = USER_STATUS, confidence = 0.9, entities = ents\<rparr>
         else if truthyBool (menu_query ents)
         then \<lparr>intent = MENU_QUERY, confidence = 0.9, entities = ents\<rparr>
         else if truthyBool (general_faq ents)
         then \<lparr>intent = GENERAL_FAQ, confidence = 0.85, entities = ents\<rparr>
         else (case continuationIntent state of
                 Some previous \<Rightarrow> \<lparr>intent = previous, confidence = 0.5, entities = ents\<rparr>
               | None \<Rightarrow> \<lparr>intent = GENERAL_QUERY, confidence = 0.3, entities = ents\<rparr>))"

definition shouldUseFallback :: "IntentClassification \<Rightarrow> bool" where
  "shouldUseFallback classification = (confidence classification < 0.4)"

text \<open>
  The path condition of the last two returns of \<open>classifyIntent\<close>: none of the seven
  rules that look at the message fires.
\<close>

definition noEntityRule :: "jsString \<Rightarrow> bool" where
  "noEntityRule message =
     (let ents = extractEntities message
      in \<not> greetingRule (toLowerCase message) GREETING_PATTERNS \<and> \<not> productRule ents
         \<and> \<not> orderTrackingRule ents \<and> \<not> orderActionRule ents
         \<and> \<not> truthyBool (user_status ents) \<and> \<not> truthyBool (menu_query ents)
         \<and> \<not> truthyBool (general_faq ents))"

section \<open>Conversation state store (ConversationStateManager.ts)\<close>

text \<open>
  The in-memory table of states, keyed by session id, as the map of its own entries.
  Both operations below return the table they leave behind: \<open>getConversationState\<close>
  stores a fresh state for an id it does not find, \<open>updateState\<close> stores the merged
  state. A stored state object is never changed in place: an update puts a new object
  under the key.

  The table of the source is a plain object, so a lookup also finds the members every
  object inherits. For a session id that names one of them the source finds that member
  instead of a state. The two operations describe the table at every other id;
  \<open>inheritedKey\<close> tells the ids apart, and the handler below is not followed on an
  inherited one.
\<close>

type_synonym Store = "jsString \<rightharpoonup> ConversationState"

text \<open>\<open>const conversationStates = {}\<close>: the table the program starts with.\<close>

definition initialStore :: Store where
  "initialStore = Map.empty"

definition objectPrototypeKeys :: "jsString list" where
  "objectPrototypeKeys = map str
    [''constructor'', ''__proto__'', ''hasOwnProperty'', ''isPrototypeOf'',
     ''propertyIsEnumerable'', ''toLocaleString'', ''toString'', ''valueOf'',
     ''__defineGetter__'', ''__defineSetter__'', ''__lookupGetter__'', ''__lookupSetter__'']"

definition inheritedKey :: "jsString \<Rightarrow> bool" where
  "inheritedKey sid = (sid \<in> set objectPrototypeKeys)"

definition getConversationState :: "Store \<Rightarrow> jsString \<Rightarrow> ConversationState \<times> Store" where
  "getConversationState store sid =
     (case store sid of
        None \<Rightarrow> (createConversationState sid, store(sid \<mapsto> createConversationState sid))
      | Some st \<Rightarrow> (st, store))"

definition updateState :: "Store \<Rightarrow> jsString \<Rightarrow> StateUpdate \<Rightarrow> ConversationState \<times> Store" where
  "updateState store sid updates =
     (let (currentState, store1) = getConversationState store sid;
          updatedState = updateConversationState currentState updates
      in (updatedState, store1(sid \<mapsto> updatedState)))"

section \<open>The chat handler (chatController.ts)\<close>

text \<open>
  The handler's collaborators are the imported API functions and the language-model
  call. Their payloads are opaque to the handler, and each call either returns or
  throws; what it does in one turn is given by an environment. The environment also
  supplies the fresh session id of \<open>uuidv4()\<close> and the number \<open>Math.random()\<close> returns
  (at most one is drawn per turn), which lies in [0, 1).
\<close>

typedecl ApiProduct
typedecl Product
typedecl ApiOrder
typedecl Order
typedecl ApiUser

datatype 'a outcome = Returns 'a | Throws

record Env =
  uuidv4 :: jsString
  mathRandom :: real
  searchProductsExternal ::
    "jsString \<Rightarrow> jsString option \<Rightarrow> jsString option \<Rightarrow> jsString option \<Rightarrow> nat \<Rightarrow> nat
       \<Rightarrow> jsString option \<Rightarrow> ApiProduct list outcome"
  formatExternalProducts :: "ApiProduct list \<Rightarrow> jsString outcome"
  searchProducts :: "jsString \<Rightarrow> Product list outcome"
  formatProducts :: "Product list \<Rightarrow> jsString outcome"
  getOrderByIdExternal :: "jsString \<Rightarrow> jsString option \<Rightarrow> ApiOrder option outcome"
  formatExternalOrder :: "ApiOrder \<Rightarrow> jsString outcome"
  getOrderById :: "jsString \<Rightarrow> Order option outcome"
  formatOrder :: "Order \<Rightarrow> jsString outcome"
  getUserStatusExternal :: "jsString \<Rightarrow> jsString \<Rightarrow> ApiUser option outcome"
  formatUser :: "ApiUser \<Rightarrow> jsString outcome"
  getGroqResponse :: "jsString \<Rightarrow> ConversationState \<Rightarrow> jsString outcome"

text \<open>The calls of a turn to the API functions and the language model, in order.\<close>

datatype Call =
  CallSearchProductsExternal jsString "jsString option" "jsString option" "jsString option" nat nat
    "jsString option"
  | CallSearchProducts jsString
  | CallGetOrderByIdExternal jsString "jsString option"
  | CallGetOrderById jsString
  | CallGetUserStatusExternal jsString jsString
  | CallGetGroqResponse jsString

text \<open>
  \<open>callThen c r k\<close>: the awaited call \<open>c\<close> has outcome \<open>r\<close>; when it returns, \<open>k\<close>
  goes on with the value. \<open>catching body handler\<close> is \<open>try { body } catch { handler }\<close>.
\<close>

definition callThen ::
    "Call \<Rightarrow> 'a outcome \<Rightarrow> ('a \<Rightarrow> 'b outcome \<times> Call list) \<Rightarrow> 'b outcome \<times> Call list" where
  "callThen c r k =
     (case r of
        Throws \<Rightarrow> (Throws, [c])
      | Returns v \<Rightarrow> (case k v of (r2, cs) \<Rightarrow> (r2, c # cs)))"

definition catching ::
    "'a outcome \<times> Call list \<Rightarrow> 'a outcome \<times> Call list \<Rightarrow> 'a outcome \<times> Call list" where
  "catching body handler =
     (case body of
        (Returns v, cs) \<Rightarrow> (Returns v, cs)
      | (Throws, cs) \<Rightarrow> (case handler of (r, cs2) \<Rightarrow> (r, cs @ cs2)))"

definition loginFirstText :: jsString where
  "loginFirstText = (str ''Untuk melihat status keanggotaan Anda, silakan login terlebih dahulu.'')"

definition statusUnavailableText :: jsString where
  "statusUnavailableText = (str ''Maaf, saya tidak dapat mengakses informasi keanggotaan Anda saat ini. Silakan coba lagi nanti atau hubungi customer service kami.'')"

definition userNotFoundText :: jsString where
  "userNotFoundText = (str ''Maaf, saya tidak dapat menemukan informasi pengguna. Mohon pastikan Anda sudah login.'')"

text \<open>
  The format functions: the branch for no result is the fixed text of the source, the
  text for a result comes from the environment.
\<close>

definition formatExternalProductResponse :: "Env \<Rightarrow> ApiProduct list \<Rightarrow> jsString outcome" where
  "formatExternalProductResponse env products =
     (if length products = 0
      then Returns (str ''Maaf, saya tidak menemukan produk yang sesuai dengan pencarian Anda. Silakan coba dengan kata kunci lain.'')
      else formatExternalProducts env products)"

definition formatProductResponse :: "Env \<Rightarrow> Product list \<Rightarrow> jsString outcome" where
  "formatProductResponse env products =
     (if length products = 0
      then Returns (str ''Maaf, saya tidak menemukan produk yang sesuai dengan pencarian Anda. Silakan coba dengan kata kunci lain.'')
      else formatProducts env products)"

definition formatExternalOrderResponse :: "Env \<Rightarrow> ApiOrder option \<Rightarrow> jsString outcome" where
  "formatExternalOrderResponse env order' =
     (case order' of
        None \<Rightarrow> Returns (str ''Maaf, saya tidak dapat menemukan pesanan dengan ID tersebut. Mohon periksa kembali nomor pesanan Anda.'')
      | Some ord \<Rightarrow> formatExternalOrder env ord)"

definition formatOrderResponse :: "Env \<Rightarrow> Order option \<Rightarrow> jsString outcome" where
  "formatOrderResponse env order' =
     (case order' of
        None \<Rightarrow> Returns (str ''Maaf, saya tidak dapat menemukan pesanan dengan ID tersebut. Mohon periksa kembali nomor pesanan Anda.'')
      | Some ord \<Rightarrow> formatOrder env ord)"

definition formatUserStatusResponse :: "Env \<Rightarrow> ApiUser option \<Rightarrow> jsString outcome" where
  "formatUserStatusResponse env user =
     (case user of
        None \<Rightarrow> Returns userNotFoundText
      | Some u \<Rightarrow> formatUser env u)"

text \<open>
  \<open>xs[Math.floor(r * xs.length)]\<close>. For \<open>r\<close> in [0, 1) the index is in range; the last
  branch is never taken for such \<open>r\<close>.
\<close>

definition randomChoice :: "real \<Rightarrow> jsString list \<Rightarrow> jsString" where
  "randomChoice r xs =
     (let i = nat \<lfloor>r * real (length xs)\<rfloor> in if i < length xs then xs ! i else [])"

definition fallbackResponses :: "jsString list" where
  "fallbackResponses = map str
    [''Maaf, saya tidak yakin apa yang Anda maksud. Bisakah Anda menjelaskan dengan lebih detail?'',
     ''Saya kurang memahami permintaan Anda. Anda bisa bertanya tentang produk fashion kami atau status pesanan Anda.'',
     ''Mohon maaf, saya tidak mengerti. Coba tanyakan dengan cara lain atau berikan informasi lebih spesifik.'',
     ''Saya masih belajar untuk memahami permintaan Anda. Bisakah Anda mengajukan pertanyaan dengan cara yang berbeda?'']"

definition getFallbackResponse :: "Env \<Rightarrow> jsString" where
  "getFallbackResponse env = randomChoice (mathRandom env) fallbackResponses"

definition greetings :: "jsString list" where
  "greetings = map str
    [''Halo! Selamat datang di Aninka Fashion. Ada yang bisa saya bantu hari ini?'',
     ''Selamat datang di layanan chat Aninka Fashion. Bagaimana saya bisa membantu Anda?'',
     ''Hai! Terima kasih telah menghubungi Aninka Fashion. Ada yang bisa saya bantu?'']"

text \<open>
  The request: the \<open>message\<close> and \<open>sessionId\<close> of the body and the \<open>aninka_session\<close>
  cookie, each possibly absent. The reply: the JSON answer with response text and
  session id, or the status 400 or 500 error.
\<close>

record Request =
  body_message :: "jsString option"
  body_sessionId :: "jsString option"
  cookie_aninka_session :: "jsString option"

datatype Reply = Json200 jsString jsString | Error400 | Error500

text \<open>
  The context part every turn update carries, written from the state object the handler
  fetched at the start of the turn.
\<close>

definition turnContext :: "jsString \<Rightarrow> jsString \<Rightarrow> ConversationState \<Rightarrow> Intent \<Rightarrow> ContextUpdate" where
  "turnContext msg responseText conversationState classifiedIntent =
     \<lparr>c_lastMessage = Some msg,
      c_lastResponse = Some responseText,
      c_previousIntents = Some (previousIntents (context' conversationState) @ [classifiedIntent]),
      c_turnCount = Some (turnCount (context' conversationState) + 1),
      c_lastProductSearch = None,
      c_lastOrderId = None\<rparr>"

definition groqCase ::
    "Env \<Rightarrow> Store \<Rightarrow> jsString \<Rightarrow> ConversationState \<Rightarrow> jsString outcome \<times> Store \<times> Call list" where
  "groqCase env store msg conversationState =
     (getGroqResponse env msg conversationState, store, [CallGetGroqResponse msg])"

definition productQueryOf :: "ExtractedEntities \<Rightarrow> jsString" where
  "productQueryOf ents =
     (let firstKeyword = (case product_keywords ents of
                            None \<Rightarrow> []
                          | Some [] \<Rightarrow> []
                          | Some (k # _) \<Rightarrow> k)
      in case product_name ents of
           None \<Rightarrow> firstKeyword
         | Some n \<Rightarrow> if n \<noteq> [] then n else firstKeyword)"

definition mockProductResponse :: "Env \<Rightarrow> jsString \<Rightarrow> jsString outcome \<times> Call list" where
  "mockProductResponse env productQuery =
     callThen (CallSearchProducts productQuery) (searchProducts env productQuery)
       (\<lambda>products. (formatProductResponse env products, []))"

definition productSearchCase ::
    "Env \<Rightarrow> Store \<Rightarrow> jsString \<Rightarrow> jsString \<Rightarrow> ConversationState \<Rightarrow> IntentClassification
       \<Rightarrow> jsString option \<Rightarrow> jsString outcome \<times> Store \<times> Call list" where
  "productSearchCase env store sid msg conversationState classification laravelCookie =
     (let ents = entities classification;
          productQuery = productQueryOf ents
      in if productQuery \<noteq> []
         then (case catching
                      (callThen
                         (CallSearchProductsExternal productQuery (category ents) (color ents)
                            (size' ents) 1 5 laravelCookie)
                         (searchProductsExternal env productQuery (category ents) (color ents)
                            (size' ents) 1 5 laravelCookie)
                         (\<lambda>externalProducts.
                            if length externalProducts > 0
                            then (formatExternalProductResponse env externalProducts, [])
                            else mockProductResponse env productQuery))
                      (mockProductResponse env productQuery) of
                 (Throws, calls) \<Rightarrow> (Throws, store, calls)
               | (Returns responseText, calls) \<Rightarrow>
                   (case updateState store sid
                           (emptyUpdate\<lparr>u_context :=
                              Some ((turnContext msg responseText conversationState
                                       (intent classification))
                                    \<lparr>c_lastProductSearch := Some productQuery\<rparr>)\<rparr>) of
                      (updatedState, store1) \<Rightarrow> (Returns responseText, store1, calls)))
         else groqCase env store msg conversationState)"

definition mockOrderResponse :: "Env \<Rightarrow> jsString \<Rightarrow> jsString outcome \<times> Call list" where
  "mockOrderResponse env orderId =
     callThen (CallGetOrderById orderId) (getOrderById env orderId)
       (\<lambda>ord. (formatOrderResponse env ord, []))"

definition orderTrackingCase ::
    "Env \<Rightarrow> Store \<Rightarrow> jsString \<Rightarrow> jsString \<Rightarrow> ConversationState \<Rightarrow> IntentClassification
       \<Rightarrow> jsString option \<Rightarrow> jsString outcome \<times> Store \<times> Call list" where
  "orderTrackingCase env store sid msg conversationState classification laravelCookie =
     (case order_id (entities classification) of
        None \<Rightarrow> groqCase env store msg conversationState
      | Some orderId \<Rightarrow>
          if orderId \<noteq> []
          then (case catching
                       (callThen (CallGetOrderByIdExternal orderId laravelCookie)
                          (getOrderByIdExternal env orderId laravelCookie)
                          (\<lambda>externalOrder.
                             case externalOrder of
                               Some ord \<Rightarrow> (formatExternalOrderResponse env (Some ord), [])
                             | None \<Rightarrow> mockOrderResponse env orderId))
                       (mockOrderResponse env orderId) of
                  (Throws, calls) \<Rightarrow> (Throws, store, calls)
                | (Returns responseText, calls) \<Rightarrow>
                    (case updateState store sid
                            (emptyUpdate\<lparr>u_context :=
                               Some ((turnContext msg responseText conversationState
                                        (intent classification))
                                     \<lparr>c_lastOrderId := Some orderId\<rparr>)\<rparr>) of
                       (updatedState, store1) \<Rightarrow> (Returns responseText, store1, calls)))
          else groqCase env store msg conversationState)"

definition userStatusCase ::
    "Env \<Rightarrow> IntentClassification \<Rightarrow> jsString option \<Rightarrow> jsString outcome \<times> Call list" where
  "userStatusCase env classification laravelCookie =
     (case (user_id (entities classification), laravelCookie) of
        (Some userId, Some cookie) \<Rightarrow>
          if userId \<noteq> [] \<and> cookie \<noteq> []
          then catching
                 (callThen (CallGetUserStatusExternal userId cookie)
                    (getUserStatusExternal env userId cookie)
                    (\<lambda>userStatus. (formatUserStatusResponse env userStatus, [])))
                 (Returns statusUnavailableText, [])
          else (Returns loginFirstText, [])
      | _ \<Rightarrow> (Returns loginFirstText, []))"

text \<open>The \<open>switch\<close> on the classified intent, inside the handler's \<open>try\<close>.\<close>

definition dispatch ::
    "Env \<Rightarrow> Store \<Rightarrow> jsString \<Rightarrow> jsString \<Rightarrow> ConversationState \<Rightarrow> IntentClassification
       \<Rightarrow> jsString option \<Rightarrow> jsString outcome \<times> Store \<times> Call list" where
  "dispatch env store sid msg conversationState classification laravelCookie =
     (case intent classification of
        PRODUCT_SEARCH \<Rightarrow>
          productSearchCase env store sid msg conversationState classification laravelCookie
      | ORDER_TRACKING \<Rightarrow>
          orderTrackingCase env store sid msg conversationState classification laravelCookie
      | GREETING \<Rightarrow> (Returns (randomChoice (mathRandom env) greetings), store, [])
      | USER_STATUS \<Rightarrow>
          (case userStatusCase env classification laravelCookie of
             (r, calls) \<Rightarrow> (r, store, calls))
      | _ \<Rightarrow> groqCase env store msg conversationState)"

text \<open>\<open>clientSessionId || uuidv4()\<close>: an absent or empty id is replaced by a fresh one.\<close>

definition sessionIdOf :: "Env \<Rightarrow> Request \<Rightarrow> jsString" where
  "sessionIdOf env req =
     (case body_sessionId req of
        None \<Rightarrow> uuidv4 env
      | Some clientSessionId \<Rightarrow> if clientSessionId \<noteq> [] then clientSessionId else uuidv4 env)"

text \<open>
  The body of the handler, for a request whose session id is not an inherited key of
  the table.
\<close>

definition chatTurn :: "Env \<Rightarrow> Store \<Rightarrow> Request \<Rightarrow> Store \<times> Reply \<times> Call list" where
  "chatTurn env store req =
     (case body_message req of
        None \<Rightarrow> (store, Error400, [])
      | Some msg \<Rightarrow>
          if msg = [] then (store, Error400, [])
          else
            (let laravelCookie = cookie_aninka_session req;
                 sid = sessionIdOf env req
             in case getConversationState store sid of
                  (conversationState, store1) \<Rightarrow>
                    (let classification = classifyIntent msg (Some conversationState)
                     in case updateState store1 sid
                               (emptyUpdate\<lparr>u_currentIntent := Some (Some (intent classification)),
                                             u_confidence := Some (confidence classification),
                                             u_entities := Some (entities classification)\<rparr>) of
                          (updatedState, store2) \<Rightarrow>
                            if shouldUseFallback classification
                            then
                              (let fallbackResponse = getFallbackResponse env
                               in case updateState store2 sid
                                         (emptyUpdate\<lparr>u_context :=
                                            Some (turnContext msg fallbackResponse conversationState
                                                    (intent classification))\<rparr>) of
                                    (updatedState2, store3) \<Rightarrow>
                                      (store3, Json200 fallbackResponse sid, []))
                            else
                              (case dispatch env store2 sid msg conversationState classification
                                      laravelCookie of
                                 (Throws, store3, calls) \<Rightarrow> (store3, Error500, calls)
                               | (Returns responseText, store3, calls) \<Rightarrow>
                                   (case updateState store3 sid
                                           (emptyUpdate\<lparr>u_context :=
                                              Some (turnContext msg responseText conversationState
                                                      (intent classification))\<rparr>) of
                                      (updatedState3, store4) \<Rightarrow>
                                        (store4, Json200 responseText sid, calls))))))"

text \<open>
  The handler. A request with no message is refused before the table is touched. A
  turn on a session id that names an inherited member is not followed: the result is
  \<open>None\<close> there.
\<close>

definition onInheritedKey :: "Env \<Rightarrow> Request \<Rightarrow> bool" where
  "onInheritedKey env req =
     (case body_message req of
        None \<Rightarrow> False
      | Some msg \<Rightarrow> msg \<noteq> [] \<and> inheritedKey (sessionIdOf env req))"

definition chat :: "Env \<Rightarrow> Store \<Rightarrow> Request \<Rightarrow> (Store \<times> Reply \<times> Call list) option" where
  "chat env store req =
     (if onInheritedKey env req then None else Some (chatTurn env store req))"

text \<open>
  A run of turns, one after the other, each with its environment and request; it is
  followed as long as every turn is. A turn is answered for a session when the handler
  replies with a response under that session id. A session that has no state yet counts
  zero turns.
\<close>

fun runTurns :: "Store \<Rightarrow> (Env \<times> Request) list \<Rightarrow> (Store \<times> Reply list) option" where
  "runTurns store [] = Some (store, [])"
| "runTurns store ((env, req) # rest) =
     (case chat env store req of
        None \<Rightarrow> None
      | Some (store1, reply, calls) \<Rightarrow>
          (case runTurns store1 rest of
             None \<Rightarrow> None
           | Some (store2, replies) \<Rightarrow> Some (store2, reply # replies)))"

fun answeredFor :: "jsString \<Rightarrow> Reply \<Rightarrow> bool" where
  "answeredFor sid (Json200 responseText sid') = (sid' = sid)"
| "answeredFor sid Error400 = False"
| "answeredFor sid Error500 = False"

definition turnCountOf :: "Store \<Rightarrow> jsString \<Rightarrow> nat" where
  "turnCountOf store sid = (case store sid of None \<Rightarrow> 0 | Some st \<Rightarrow> turnCount (context' st))"

text \<open>No stored state carries the intent FALLBACK.\<close>

definition noFallbackStored :: "Store \<Rightarrow> bool" where
  "noFallbackStored store = (\<forall>sid s. store sid = Some s \<longrightarrow> currentIntent s \<noteq> Some FALLBACK)"

section \<open>A sample environment and sample requests\<close>

text \<open>
  Concrete inputs for the instances below: an environment in which every lookup comes
  back empty and the language model fails, requests of the session "s1", and a state
  that remembers an order and a product search.
\<close>

definition sampleEnv :: Env where
  "sampleEnv =
     \<lparr>uuidv4 = (str ''generated-id''), mathRandom = 0,
      searchProductsExternal = (\<lambda>keyword cat col sz page limit cookie. Returns []),
      formatExternalProducts = (\<lambda>products. Throws),
      searchProducts = (\<lambda>keyword. Returns []),
      formatProducts = (\<lambda>products. Throws),
      getOrderByIdExternal = (\<lambda>orderId cookie. Returns None),
      formatExternalOrder = (\<lambda>ord. Throws),
      getOrderById = (\<lambda>orderId. Returns None),
      formatOrder = (\<lambda>ord. Throws),
      getUserStatusExternal = (\<lambda>userId cookie. Returns None),
      formatUser = (\<lambda>user. Throws),
      getGroqResponse = (\<lambda>msg state. Throws)\<rparr>"

definition sampleRequest :: "jsString \<Rightarrow> jsString option \<Rightarrow> Request" where
  "sampleRequest msg cookie =
     \<lparr>body_message = Some msg, body_sessionId = Some (str ''s1''), cookie_aninka_session = cookie\<rparr>"

definition sampleTurns :: "(Env \<times> Request) list" where
  "sampleTurns =
     [(sampleEnv, sampleRequest (str ''xyz'') None),
      (sampleEnv, sampleRequest (str ''cari dress'') None),
      (sampleEnv, sampleRequest (str ''halo'') None),
      (sampleEnv, sampleRequest (str ''fitur'') None)]"

definition stateWithOrder :: ConversationState where
  "stateWithOrder =
     (createConversationState (str ''s1''))
       \<lparr>context' := (context' (createConversationState (str ''s1'')))
          \<lparr>lastOrderId := Some (str ''4521''), lastProductSearch := Some (str ''dress'')\<rparr>\<rparr>"

section \<open>Properties of entity extraction\<close>

lemma includesStr_sublist: "includesStr s kw = sublist kw s"
  by (induction s) (simp_all add: sublist_Cons_right)

lemma length_toLowerCase: "0x130 \<notin> set m \<Longrightarrow> length (toLowerCase m) = length m"
  by (induction m) (auto simp add: toLowerCase_def toLowerUnit_def)

lemma order_action_before:
  "order_action (categoryStep lm e) = order_action e"
  "order_action (defaultCategoryStep e) = order_action e"
  "order_action (productStep lm e) = order_action e"
  "order_action (orderKeywordsStep lm e) = order_action e"
  "order_action (orderIdStep lm e) = order_action e"
  by (simp_all add: categoryStep_def defaultCategoryStep_def productStep_def
        orderKeywordsStep_def orderIdStep_def Let_def split: option.splits list.splits prod.splits)

lemma order_action_after:
  "order_action (colorStep lm e) = order_action e"
  "order_action (sizeStep lm e) = order_action e"
  "order_action (userStatusStep lm e) = order_action e"
  "order_action (userIdStep lm e) = order_action e"
  "order_action (menuQueryStep lm e) = order_action e"
  "order_action (generalFaqStep lm e) = order_action e"
  by (simp_all add: colorStep_def sizeStep_def userStatusStep_def userIdStep_def
        menuQueryStep_def generalFaqStep_def Let_def split: option.splits)

lemma order_action_extract:
  "order_action (extractEntities t) = order_action (orderActionStep (toLowerCase t) emptyEntities)"
  by (simp add: extractEntities_def Let_def order_action_before order_action_after orderActionStep_def)

text \<open>
  The default-category block runs before the product block, on an object that has no
  product key yet, so it never changes anything: the category of the result is the one
  the table scan found, or none.
\<close>

lemma category_after:
  "category (productStep lm e) = category e"
  "category (orderKeywordsStep lm e) = category e"
  "category (orderIdStep lm e) = category e"
  "category (orderActionStep lm e) = category e"
  "category (colorStep lm e) = category e"
  "category (sizeStep lm e) = category e"
  "category (userStatusStep lm e) = category e"
  "category (userIdStep lm e) = category e"
  "category (menuQueryStep lm e) = category e"
  "category (generalFaqStep lm e) = category e"
  by (simp_all add: productStep_def orderKeywordsStep_def orderIdStep_def orderActionStep_def
        colorStep_def sizeStep_def userStatusStep_def userIdStep_def
        menuQueryStep_def generalFaqStep_def Let_def split: option.splits list.splits)

lemma defaultCategoryStep_dead:
  "defaultCategoryStep (categoryStep lm emptyEntities) = categoryStep lm emptyEntities"
  by (simp add: defaultCategoryStep_def categoryStep_def emptyEntities_def truthyArr_def
        truthyStr_def split: option.splits prod.splits)

lemma category_extract:
  "category (extractEntities t) = category (categoryStep (toLowerCase t) emptyEntities)"
  by (simp add: extractEntities_def Let_def category_after defaultCategoryStep_dead)

text \<open>
  C1. The claim: a text with no category keyword but with a product keyword gets the
  default category "gamis". The code at the text "cari": no category keyword is included,
  the product keyword "cari" is found, and the result has no category.
\<close>

theorem default_category_not_applied:
  "find (\<lambda>(kw, cat). includesStr (toLowerCase (str ''cari'')) kw) CATEGORY_KEYWORDS = None
   \<and> product_keywords (extractEntities (str ''cari'')) = Some [(str ''cari'')]
   \<and> product_name (extractEntities (str ''cari'')) = Some (str ''cari'')
   \<and> category (extractEntities (str ''cari'')) = None"
  by code_simp

text \<open>
  C8. For every text the recorded order action is decided by fixed priority on the
  lowercased text: "cancel" when "cancel" or "batal" occurs; otherwise "return" when
  "return" or "pengembalian" occurs; otherwise "refund" when "refund" occurs; otherwise
  none. The field holds at most one action. A text with both a cancel keyword and
  "refund" yields "cancel".
\<close>

theorem order_action_priority:
  "order_action (extractEntities t) =
     (if sublist (str ''cancel'') (toLowerCase t) \<or> sublist (str ''batal'') (toLowerCase t) then Some Cancel
      else if sublist (str ''return'') (toLowerCase t) \<or> sublist (str ''pengembalian'') (toLowerCase t)
      then Some Return
      else if sublist (str ''refund'') (toLowerCase t) then Some Refund
      else None)
   \<and> ((sublist (str ''cancel'') (toLowerCase t) \<or> sublist (str ''batal'') (toLowerCase t))
        \<and> sublist (str ''refund'') (toLowerCase t)
      \<longrightarrow> order_action (extractEntities t) = Some Cancel)"
  by (simp add: order_action_extract orderActionStep_def includesStr_sublist emptyEntities_def)

theorem order_action_priority_witness:
  "sublist (str ''cancel'') (toLowerCase (str ''Cancel and REFUND order #4521''))
   \<and> sublist (str ''refund'') (toLowerCase (str ''Cancel and REFUND order #4521''))
   \<and> order_action (extractEntities (str ''Cancel and REFUND order #4521'')) = Some Cancel"
proof -
  have c: "sublist (str ''cancel'') (toLowerCase (str ''Cancel and REFUND order #4521''))"
    by code_simp
  have r: "sublist (str ''refund'') (toLowerCase (str ''Cancel and REFUND order #4521''))"
    by code_simp
  from order_action_priority [of "(str ''Cancel and REFUND order #4521'')"] c r
  show ?thesis by blast
qed

text \<open>
  C7. The message "saya mau cari dress warna merah ukuran m": the product keywords
  found are "dress" and "cari", the color is "merah", the size is "m", the category is
  "gamis" (the table entry of the keyword "dress"); whatever the prior state, the intent
  is PRODUCT_SEARCH with confidence 0.85.
\<close>

theorem scenario_dress_merah_m:
  "product_keywords (extractEntities (str ''saya mau cari dress warna merah ukuran m''))
     = Some [(str ''dress''), (str ''cari'')]
   \<and> color (extractEntities (str ''saya mau cari dress warna merah ukuran m'')) = Some (str ''merah'')
   \<and> size' (extractEntities (str ''saya mau cari dress warna merah ukuran m'')) = Some (str ''m'')
   \<and> category (extractEntities (str ''saya mau cari dress warna merah ukuran m'')) = Some (str ''gamis'')
   \<and> find (\<lambda>(kw, cat). includesStr (toLowerCase (str ''saya mau cari dress warna merah ukuran m'')) kw)
        CATEGORY_KEYWORDS = Some ((str ''dress''), (str ''gamis''))
   \<and> intent (classifyIntent (str ''saya mau cari dress warna merah ukuran m'') st) = PRODUCT_SEARCH
   \<and> confidence (classifyIntent (str ''saya mau cari dress warna merah ukuran m'') st) = 0.85"
proof -
  let ?m = "(str ''saya mau cari dress warna merah ukuran m'')"
  have e: "extractEntities ?m =
      \<lparr>product_name = Some (str ''dress''), product_keywords = Some [(str ''dress''), (str ''cari'')],
       color = Some (str ''merah''), size' = Some (str ''m''), category = Some (str ''gamis''), order_id = None,
       order_keywords = None, user_status = None, user_id = None, menu_query = None,
       order_action = None, general_faq = None\<rparr>"
    by code_simp
  have g: "\<not> greetingRule (toLowerCase ?m) GREETING_PATTERNS"
    by code_simp
  have f: "find (\<lambda>(kw, cat). includesStr (toLowerCase ?m) kw) CATEGORY_KEYWORDS
             = Some ((str ''dress''), (str ''gamis''))"
    by code_simp
  have d: "str ''dress'' \<noteq> []"
    by (simp add: str_def)
  have c: "intent (classifyIntent ?m st) = PRODUCT_SEARCH
      \<and> confidence (classifyIntent ?m st) = 0.85"
    unfolding classifyIntent_def Let_def
    by (simp add: e g d productRule_def truthyArr_def truthyStr_def truthyBool_def)
  from f c show ?thesis
    by (simp add: e)
qed

section \<open>Properties of intent classification\<close>

lemma intentValue_nonempty: "intentValue i \<noteq> []"
  by (cases i) (simp_all add: str_def)

lemma continuationIntent_Some:
  "continuationIntent (Some s) = currentIntent s"
  by (simp add: continuationIntent_def intentValue_nonempty split: option.splits)

lemma continuationIntent_None: "continuationIntent None = None"
  by (simp add: continuationIntent_def)

lemma greetingRule_iff:
  "greetingRule lm ps = ((\<exists>p\<in>set ps. includesStr lm p) \<and> length lm < 20)"
  by (induction ps) auto

lemma classifyIntent_default:
  "noEntityRule m \<Longrightarrow> continuationIntent st = None \<Longrightarrow>
   classifyIntent m st = \<lparr>intent = GENERAL_QUERY, confidence = 0.3, entities = extractEntities m\<rparr>"
  by (simp add: classifyIntent_def noEntityRule_def Let_def)

lemma classifyIntent_continue:
  "noEntityRule m \<Longrightarrow> continuationIntent st = Some i \<Longrightarrow>
   classifyIntent m st = \<lparr>intent = i, confidence = 0.5, entities = extractEntities m\<rparr>"
  by (simp add: classifyIntent_def noEntityRule_def Let_def)

lemma classifyIntent_entity_rule:
  "\<not> noEntityRule m \<Longrightarrow>
   confidence (classifyIntent m st) \<in> {0.7, 0.75, 0.85, 0.9}
   \<and> intent (classifyIntent m st) \<in> {GREETING, PRODUCT_SEARCH, ORDER_TRACKING, ORDER_ACTION,
        USER_STATUS, MENU_QUERY, GENERAL_FAQ}"
  unfolding classifyIntent_def noEntityRule_def Let_def by auto

lemma extract_xyz: "extractEntities (str ''xyz'') = emptyEntities"
  by code_simp

lemma noEntityRule_xyz: "noEntityRule (str ''xyz'')"
  by code_simp

lemma greeting_halo: "greetingRule (toLowerCase (str ''halo'')) GREETING_PATTERNS"
  by code_simp

lemma extract_ya_lanjutkan: "extractEntities (str ''ya, lanjutkan'') = emptyEntities"
  by code_simp

lemma noEntityRule_ya_lanjutkan: "noEntityRule (str ''ya, lanjutkan'')"
  by code_simp

text \<open>
  C4. \<open>shouldUseFallback\<close> holds exactly when the confidence is below 0.4. For every
  message and prior state the classification trips the gate exactly when it comes from
  the final default return, which is GENERAL_QUERY at 0.3 with the extracted entities;
  every other return has confidence at least 0.5.
\<close>

theorem fallback_gate:
  "shouldUseFallback c = (confidence c < 0.4)
   \<and> shouldUseFallback (classifyIntent m st) = (noEntityRule m \<and> continuationIntent st = None)
   \<and> (shouldUseFallback (classifyIntent m st) \<longrightarrow>
        classifyIntent m st
          = \<lparr>intent = GENERAL_QUERY, confidence = 0.3, entities = extractEntities m\<rparr>)
   \<and> (\<not> shouldUseFallback (classifyIntent m st) \<longrightarrow> 0.5 \<le> confidence (classifyIntent m st))"
proof (cases "noEntityRule m")
  case False
  from classifyIntent_entity_rule [OF False, of st]
  have "0.5 \<le> confidence (classifyIntent m st)" by auto
  with False show ?thesis by (simp add: shouldUseFallback_def)
next
  case True
  show ?thesis
  proof (cases "continuationIntent st")
    case None
    with True show ?thesis
      by (simp add: shouldUseFallback_def classifyIntent_default)
  next
    case (Some i)
    with True show ?thesis
      by (simp add: shouldUseFallback_def classifyIntent_continue)
  qed
qed

theorem fallback_gate_witness:
  "shouldUseFallback (classifyIntent (str ''xyz'') None)
   \<and> classifyIntent (str ''xyz'') None
        = \<lparr>intent = GENERAL_QUERY, confidence = 0.3, entities = emptyEntities\<rparr>
   \<and> \<not> shouldUseFallback (classifyIntent (str ''halo'') None)
   \<and> 0.5 \<le> confidence (classifyIntent (str ''halo'') None)"
proof -
  have a: "shouldUseFallback (classifyIntent (str ''xyz'') None)"
    using fallback_gate [of undefined "(str ''xyz'')" None] noEntityRule_xyz
    by (simp add: continuationIntent_None)
  have b: "\<not> shouldUseFallback (classifyIntent (str ''halo'') None)"
    using greeting_halo by (simp add: classifyIntent_def Let_def shouldUseFallback_def)
  from fallback_gate [of undefined "(str ''xyz'')" None] fallback_gate [of undefined "(str ''halo'')" None] a b
  show ?thesis by (simp add: extract_xyz)
qed

text \<open>
  C5, as the code has it. The code tests the length of the lowercased text. Every
  message whose lowercased form includes a greeting pattern and has length below 20 is
  classified GREETING with confidence 0.9 and the empty entity object, whatever else the
  text contains and whatever the prior state. The lowercased form has the length of the
  message when the message has no U+0130, so for such a message the length of the
  message can be tested instead.
\<close>

theorem greeting_short_message:
  "((\<exists>p\<in>set GREETING_PATTERNS. sublist p (toLowerCase m)) \<and> length (toLowerCase m) < 20 \<longrightarrow>
      classifyIntent m st = \<lparr>intent = GREETING, confidence = 0.9, entities = emptyEntities\<rparr>)
   \<and> ((\<exists>p\<in>set GREETING_PATTERNS. sublist p (toLowerCase m)) \<and> length m < 20
        \<and> 0x130 \<notin> set m \<longrightarrow>
      classifyIntent m st = \<lparr>intent = GREETING, confidence = 0.9, entities = emptyEntities\<rparr>)"
  by (auto simp add: classifyIntent_def Let_def greetingRule_iff includesStr_sublist
        length_toLowerCase)

theorem greeting_short_message_witness:
  "str ''halo'' \<in> set GREETING_PATTERNS
   \<and> sublist (str ''halo'') (toLowerCase (str ''Halo dress merah''))
   \<and> length (toLowerCase (str ''Halo dress merah'')) < 20
   \<and> productRule (extractEntities (str ''Halo dress merah''))
   \<and> classifyIntent (str ''Halo dress merah'') None
        = \<lparr>intent = GREETING, confidence = 0.9, entities = emptyEntities\<rparr>"
proof -
  have p: "str ''halo'' \<in> set GREETING_PATTERNS" by code_simp
  have s: "sublist (str ''halo'') (toLowerCase (str ''Halo dress merah''))" by code_simp
  have l: "length (toLowerCase (str ''Halo dress merah'')) < 20" by code_simp
  have e: "productRule (extractEntities (str ''Halo dress merah''))" by code_simp
  from p s have ex: "\<exists>p\<in>set GREETING_PATTERNS. sublist p (toLowerCase (str ''Halo dress merah''))"
    by blast
  from greeting_short_message [of "str ''Halo dress merah''" None] ex l
  have "classifyIntent (str ''Halo dress merah'') None
      = \<lparr>intent = GREETING, confidence = 0.9, entities = emptyEntities\<rparr>"
    by blast
  with p s l e show ?thesis by (intro conjI)
qed

text \<open>
  C5 as stated fails: the message "halo " followed by ten times U+0130 has length 15
  and its lowercased form includes "halo", but the lowercased form has length 25, and
  the message is classified GENERAL_QUERY at 0.3.
\<close>

theorem greeting_length_counterexample:
  "length (str ''halo '' @ replicate 10 0x130) = 15
   \<and> str ''halo'' \<in> set GREETING_PATTERNS
   \<and> sublist (str ''halo'') (toLowerCase (str ''halo '' @ replicate 10 0x130))
   \<and> length (toLowerCase (str ''halo '' @ replicate 10 0x130)) = 25
   \<and> classifyIntent (str ''halo '' @ replicate 10 0x130) None
        = \<lparr>intent = GENERAL_QUERY, confidence = 0.3, entities = emptyEntities\<rparr>"
proof -
  have a: "length (str ''halo '' @ replicate 10 0x130) = 15" by code_simp
  have b: "str ''halo'' \<in> set GREETING_PATTERNS" by code_simp
  have c: "sublist (str ''halo'') (toLowerCase (str ''halo '' @ replicate 10 0x130))"
    by code_simp
  have d: "length (toLowerCase (str ''halo '' @ replicate 10 0x130)) = 25" by code_simp
  have n: "noEntityRule (str ''halo '' @ replicate 10 0x130)" by code_simp
  have x: "extractEntities (str ''halo '' @ replicate 10 0x130) = emptyEntities" by code_simp
  from classifyIntent_default [OF n continuationIntent_None]
  have e: "classifyIntent (str ''halo '' @ replicate 10 0x130) None
      = \<lparr>intent = GENERAL_QUERY, confidence = 0.3, entities = emptyEntities\<rparr>"
    by (simp only: x)
  from a b c d e show ?thesis by (intro conjI)
qed

text \<open>
  C6. When none of the rules on the message fires and the prior state has an intent, the
  classification is that intent at confidence 0.5 with the entities extracted from the
  current message, and it does not trip the fallback gate. The instance: "ya, lanjutkan"
  after ORDER_TRACKING.
\<close>

theorem context_continuation:
  "noEntityRule m \<Longrightarrow> currentIntent s = Some i \<Longrightarrow>
   classifyIntent m (Some s) = \<lparr>intent = i, confidence = 0.5, entities = extractEntities m\<rparr>
   \<and> \<not> shouldUseFallback (classifyIntent m (Some s))"
  by (simp add: classifyIntent_continue continuationIntent_Some shouldUseFallback_def)

theorem context_continuation_witness:
  "noEntityRule (str ''ya, lanjutkan'')
   \<and> classifyIntent (str ''ya, lanjutkan'')
        (Some ((createConversationState (str ''s1''))\<lparr>currentIntent := Some ORDER_TRACKING\<rparr>))
      = \<lparr>intent = ORDER_TRACKING, confidence = 0.5, entities = emptyEntities\<rparr>
   \<and> \<not> shouldUseFallback (classifyIntent (str ''ya, lanjutkan'')
        (Some ((createConversationState (str ''s1''))\<lparr>currentIntent := Some ORDER_TRACKING\<rparr>)))"
proof -
  let ?s = "(createConversationState (str ''s1''))\<lparr>currentIntent := Some ORDER_TRACKING\<rparr>"
  have ci: "currentIntent ?s = Some ORDER_TRACKING" by simp
  note r = context_continuation [OF noEntityRule_ya_lanjutkan ci]
  from r have r1: "classifyIntent (str ''ya, lanjutkan'') (Some ?s)
      = \<lparr>intent = ORDER_TRACKING, confidence = 0.5, entities = emptyEntities\<rparr>"
    by (simp only: extract_ya_lanjutkan)
  from r have r2: "\<not> shouldUseFallback (classifyIntent (str ''ya, lanjutkan'') (Some ?s))"
    by (rule conjunct2)
  from noEntityRule_ya_lanjutkan r1 r2 show ?thesis by (intro conjI)
qed

section \<open>Properties of the state update\<close>

lemma updateState_eq:
  "updateState store sid u =
     (updateConversationState (fst (getConversationState store sid)) u,
      store(sid \<mapsto> updateConversationState (fst (getConversationState store sid)) u))"
  by (simp add: updateState_def getConversationState_def Let_def split: option.splits)

lemma spreadContext_frame:
  "c_lastMessage u = None \<Longrightarrow> lastMessage (spreadContext c u) = lastMessage c"
  "c_lastResponse u = None \<Longrightarrow> lastResponse (spreadContext c u) = lastResponse c"
  "c_previousIntents u = None \<Longrightarrow> previousIntents (spreadContext c u) = previousIntents c"
  "c_turnCount u = None \<Longrightarrow> turnCount (spreadContext c u) = turnCount c"
  "c_lastProductSearch u = None \<Longrightarrow> lastProductSearch (spreadContext c u) = lastProductSearch c"
  "c_lastOrderId u = None \<Longrightarrow> lastOrderId (spreadContext c u) = lastOrderId c"
  by (simp_all add: spreadContext_def spreadReq_def spreadOpt_def)

lemma spreadEntities_frame:
  "product_name b = None \<Longrightarrow> product_name (spreadEntities a b) = product_name a"
  "product_keywords b = None \<Longrightarrow> product_keywords (spreadEntities a b) = product_keywords a"
  "color b = None \<Longrightarrow> color (spreadEntities a b) = color a"
  "size' b = None \<Longrightarrow> size' (spreadEntities a b) = size' a"
  "category b = None \<Longrightarrow> category (spreadEntities a b) = category a"
  "order_id b = None \<Longrightarrow> order_id (spreadEntities a b) = order_id a"
  "order_keywords b = None \<Longrightarrow> order_keywords (spreadEntities a b) = order_keywords a"
  "user_status b = None \<Longrightarrow> user_status (spreadEntities a b) = user_status a"
  "user_id b = None \<Longrightarrow> user_id (spreadEntities a b) = user_id a"
  "menu_query b = None \<Longrightarrow> menu_query (spreadEntities a b) = menu_query a"
  "order_action b = None \<Longrightarrow> order_action (spreadEntities a b) = order_action a"
  "general_faq b = None \<Longrightarrow> general_faq (spreadEntities a b) = general_faq a"
  by (simp_all add: spreadEntities_def spreadOpt_def)

lemma updateConversationState_parts:
  "context' (updateConversationState s u)
     = spreadContext (context' s) (case u_context u of None \<Rightarrow> emptyContextUpdate | Some c \<Rightarrow> c)"
  "entities' (updateConversationState s u)
     = spreadEntities (entities' s) (case u_entities u of None \<Rightarrow> emptyEntities | Some e \<Rightarrow> e)"
  by (simp_all add: updateConversationState_def)

text \<open>
  C3. \<open>updateState\<close> stores the merged state under the session id, and merging keeps
  every key of \<open>context\<close> and of \<open>entities\<close> that the partial update does not mention
  (the previous state being the stored one, or a fresh one for an unseen id). An update
  with \<open>{context: {lastMessage: x}}\<close> sets the last message and leaves \<open>lastOrderId\<close>
  and \<open>lastProductSearch\<close> as they were.
\<close>

theorem update_keeps_unmentioned_keys:
  "(let prev = fst (getConversationState store sid);
        new = fst (updateState store sid updates);
        cu = (case u_context updates of None \<Rightarrow> emptyContextUpdate | Some c \<Rightarrow> c);
        eu = (case u_entities updates of None \<Rightarrow> emptyEntities | Some e \<Rightarrow> e)
    in snd (updateState store sid updates) sid = Some new
       \<and> new = updateConversationState prev updates
       \<and> (c_lastMessage cu = None \<longrightarrow> lastMessage (context' new) = lastMessage (context' prev))
       \<and> (c_lastResponse cu = None \<longrightarrow> lastResponse (context' new) = lastResponse (context' prev))
       \<and> (c_previousIntents cu = None \<longrightarrow>
            previousIntents (context' new) = previousIntents (context' prev))
       \<and> (c_turnCount cu = None \<longrightarrow> turnCount (context' new) = turnCount (context' prev))
       \<and> (c_lastProductSearch cu = None \<longrightarrow>
            lastProductSearch (context' new) = lastProductSearch (context' prev))
       \<and> (c_lastOrderId cu = None \<longrightarrow> lastOrderId (context' new) = lastOrderId (context' prev))
       \<and> (product_name eu = None \<longrightarrow> product_name (entities' new) = product_name (entities' prev))
       \<and> (product_keywords eu = None \<longrightarrow>
            product_keywords (entities' new) = product_keywords (entities' prev))
       \<and> (color eu = None \<longrightarrow> color (entities' new) = color (entities' prev))
       \<and> (size' eu = None \<longrightarrow> size' (entities' new) = size' (entities' prev))
       \<and> (category eu = None \<longrightarrow> category (entities' new) = category (entities' prev))
       \<and> (order_id eu = None \<longrightarrow> order_id (entities' new) = order_id (entities' prev))
       \<and> (order_keywords eu = None \<longrightarrow>
            order_keywords (entities' new) = order_keywords (entities' prev))
       \<and> (user_status eu = None \<longrightarrow> user_status (entities' new) = user_status (entities' prev))
       \<and> (user_id eu = None \<longrightarrow> user_id (entities' new) = user_id (entities' prev))
       \<and> (menu_query eu = None \<longrightarrow> menu_query (entities' new) = menu_query (entities' prev))
       \<and> (order_action eu = None \<longrightarrow> order_action (entities' new) = order_action (entities' prev))
       \<and> (general_faq eu = None \<longrightarrow> general_faq (entities' new) = general_faq (entities' prev))
       \<and> (updates = emptyUpdate\<lparr>u_context := Some (emptyContextUpdate\<lparr>c_lastMessage := Some x\<rparr>)\<rparr>
            \<longrightarrow> lastMessage (context' new) = x
                \<and> lastOrderId (context' new) = lastOrderId (context' prev)
                \<and> lastProductSearch (context' new) = lastProductSearch (context' prev)))"
  unfolding Let_def updateState_eq fst_conv snd_conv updateConversationState_parts
  by (intro conjI impI)
     (simp_all add: spreadContext_frame spreadEntities_frame,
      simp_all add: emptyUpdate_def emptyContextUpdate_def spreadContext_def spreadReq_def spreadOpt_def)

theorem update_keeps_unmentioned_keys_witness:
  "lastMessage (context' (fst (updateState [(str ''s1'') \<mapsto> stateWithOrder] (str ''s1'')
       (emptyUpdate\<lparr>u_context := Some (emptyContextUpdate\<lparr>c_lastMessage := Some (str ''x'')\<rparr>)\<rparr>)))) = (str ''x'')
   \<and> lastOrderId (context' (fst (updateState [(str ''s1'') \<mapsto> stateWithOrder] (str ''s1'')
       (emptyUpdate\<lparr>u_context := Some (emptyContextUpdate\<lparr>c_lastMessage := Some (str ''x'')\<rparr>)\<rparr>))))
      = Some (str ''4521'')
   \<and> lastProductSearch (context' (fst (updateState [(str ''s1'') \<mapsto> stateWithOrder] (str ''s1'')
       (emptyUpdate\<lparr>u_context := Some (emptyContextUpdate\<lparr>c_lastMessage := Some (str ''x'')\<rparr>)\<rparr>))))
      = Some (str ''dress'')"
proof -
  let ?u = "emptyUpdate\<lparr>u_context := Some (emptyContextUpdate\<lparr>c_lastMessage := Some (str ''x'')\<rparr>)\<rparr>"
  have prev: "fst (getConversationState [(str ''s1'') \<mapsto> stateWithOrder] (str ''s1'')) = stateWithOrder"
    by (simp add: getConversationState_def)
  have old: "lastOrderId (context' stateWithOrder) = Some (str ''4521'')"
      "lastProductSearch (context' stateWithOrder) = Some (str ''dress'')"
    by (simp_all add: stateWithOrder_def)
  note t = update_keeps_unmentioned_keys
      [of "[(str ''s1'') \<mapsto> stateWithOrder]" "(str ''s1'')" ?u "(str ''x'')", unfolded Let_def prev]
  from t have "?u = ?u \<longrightarrow>
      lastMessage (context' (fst (updateState [(str ''s1'') \<mapsto> stateWithOrder] (str ''s1'') ?u))) = (str ''x'')
      \<and> lastOrderId (context' (fst (updateState [(str ''s1'') \<mapsto> stateWithOrder] (str ''s1'') ?u)))
          = lastOrderId (context' stateWithOrder)
      \<and> lastProductSearch (context' (fst (updateState [(str ''s1'') \<mapsto> stateWithOrder] (str ''s1'') ?u)))
          = lastProductSearch (context' stateWithOrder)"
    by (elim conjE)
  then show ?thesis
    by (simp only: old simp_thms)
qed

section \<open>Properties of the chat handler\<close>

lemma snapshot_turnCount:
  "turnCount (context' (fst (getConversationState store sid))) = turnCountOf store sid"
  by (simp add: getConversationState_def turnCountOf_def createConversationState_def
        split: option.splits)

lemma turnCountOf_get:
  "turnCountOf (snd (getConversationState store sid)) sid' = turnCountOf store sid'"
  by (simp add: getConversationState_def turnCountOf_def createConversationState_def
        split: option.splits)

lemma turnCountOf_update_other:
  "updateState store sid u = (st, store') \<Longrightarrow> sid' \<noteq> sid \<Longrightarrow>
   turnCountOf store' sid' = turnCountOf store sid'"
  by (auto simp add: updateState_eq turnCountOf_def)

lemma turnCountOf_update_ctx:
  "updateState store sid u = (st, store') \<Longrightarrow> u_context u = Some c \<Longrightarrow> c_turnCount c = Some n \<Longrightarrow>
   turnCountOf store' sid = n"
  by (auto simp add: updateState_eq turnCountOf_def updateConversationState_def spreadContext_def
        spreadReq_def)

lemma turnCountOf_update_noctx:
  "updateState store sid u = (st, store') \<Longrightarrow> u_context u = None \<Longrightarrow>
   turnCountOf store' sid = turnCountOf store sid"
  using snapshot_turnCount [of store sid]
  by (auto simp add: updateState_eq turnCountOf_def updateConversationState_def spreadContext_def
        spreadReq_def emptyContextUpdate_def)

lemma final_update_turnCount:
  "turnCountOf (snd (updateState st sid0
       (emptyUpdate\<lparr>u_context := Some (turnContext msg txt cs i)\<rparr>))) s
     = (if s = sid0 then turnCount (context' cs) + 1 else turnCountOf st s)"
  by (simp add: updateState_eq turnCountOf_def updateConversationState_def spreadContext_def
        spreadReq_def turnContext_def emptyUpdate_def)

lemma groqCase_store:
  "groqCase env store msg cs = (r, store', calls) \<Longrightarrow> store' = store"
  by (auto simp add: groqCase_def)

lemma productSearchCase_store:
  assumes "productSearchCase env store sid msg cs cl ck = (r, store', calls)"
  shows "(r = Throws \<longrightarrow> store' = store)
         \<and> (sid' \<noteq> sid \<longrightarrow> turnCountOf store' sid' = turnCountOf store sid')"
  using assms
  by (auto simp add: productSearchCase_def Let_def
        split: if_splits prod.splits outcome.splits
        dest: groqCase_store turnCountOf_update_other)

lemma orderTrackingCase_store:
  assumes "orderTrackingCase env store sid msg cs cl ck = (r, store', calls)"
  shows "(r = Throws \<longrightarrow> store' = store)
         \<and> (sid' \<noteq> sid \<longrightarrow> turnCountOf store' sid' = turnCountOf store sid')"
  using assms
  by (auto simp add: orderTrackingCase_def Let_def
        split: if_splits prod.splits outcome.splits option.splits
        dest: groqCase_store turnCountOf_update_other)

lemma dispatch_store:
  assumes "dispatch env store sid msg cs cl ck = (r, store', calls)"
  shows "(r = Throws \<longrightarrow> store' = store)
         \<and> (sid' \<noteq> sid \<longrightarrow> turnCountOf store' sid' = turnCountOf store sid')"
proof (cases "intent cl")
  case PRODUCT_SEARCH
  with assms productSearchCase_store [of env store sid msg cs cl ck r store' calls sid']
  show ?thesis by (simp add: dispatch_def)
next
  case ORDER_TRACKING
  with assms orderTrackingCase_store [of env store sid msg cs cl ck r store' calls sid']
  show ?thesis by (simp add: dispatch_def)
qed (use assms in \<open>auto simp add: dispatch_def groqCase_def split: prod.splits\<close>)

lemma chatTurn_turnCount:
  assumes c: "chatTurn env store req = (store', reply, calls)"
  shows "turnCountOf store' sid = turnCountOf store sid + (if answeredFor sid reply then 1 else 0)"
proof (cases "body_message req")
  case None
  with c show ?thesis by (auto simp add: chatTurn_def)
next
  case (Some msg)
  show ?thesis
  proof (cases "msg = []")
    case True
    with c Some show ?thesis by (auto simp add: chatTurn_def)
  next
    case False
    define sid0 where "sid0 = sessionIdOf env req"
    define cs where "cs = fst (getConversationState store sid0)"
    define store1 where "store1 = snd (getConversationState store sid0)"
    define cl where "cl = classifyIntent msg (Some cs)"
    define u1 where "u1 = emptyUpdate\<lparr>u_currentIntent := Some (Some (intent cl)),
        u_confidence := Some (confidence cl), u_entities := Some (entities cl)\<rparr>"
    define store2 where "store2 = snd (updateState store1 sid0 u1)"
    define final where "final = (\<lambda>txt. emptyUpdate\<lparr>u_context :=
        Some (turnContext msg txt cs (intent cl))\<rparr>)"
    have g: "getConversationState store sid0 = (cs, store1)"
      by (simp add: cs_def store1_def)
    have up1: "updateState store1 sid0 u1 = (fst (updateState store1 sid0 u1), store2)"
      by (simp add: store2_def)
    have tc_cs: "turnCount (context' cs) = turnCountOf store sid0"
      by (simp add: cs_def snapshot_turnCount)
    have tc1: "turnCountOf store1 s = turnCountOf store s" for s
      by (simp add: store1_def turnCountOf_get)
    have tc2: "turnCountOf store2 s = turnCountOf store s" for s
    proof (cases "s = sid0")
      case True
      from turnCountOf_update_noctx [OF up1] tc1 True show ?thesis
        by (simp add: u1_def emptyUpdate_def)
    next
      case False
      from turnCountOf_update_other [OF up1 False] tc1 show ?thesis by simp
    qed
    have fin: "turnCountOf (snd (updateState st sid0 (final rt))) s
        = (if s = sid0 then turnCountOf store sid0 + 1 else turnCountOf st s)" for st rt s
      unfolding final_def final_update_turnCount tc_cs ..
    show ?thesis
    proof (cases "shouldUseFallback cl")
      case True
      from c Some False g up1 True
      have "store' = snd (updateState store2 sid0 (final (getFallbackResponse env)))"
           "reply = Json200 (getFallbackResponse env) sid0"
        by (auto simp add: chatTurn_def Let_def sid0_def [symmetric] cl_def [symmetric]
              u1_def [symmetric] final_def split: prod.splits)
      with fin [of store2 "getFallbackResponse env" sid] tc2 [of sid] tc2 [of sid0]
      show ?thesis by auto
    next
      case nf: False
      obtain r store3 calls3 where d: "dispatch env store2 sid0 msg cs cl
          (cookie_aninka_session req) = (r, store3, calls3)"
        by (metis prod_cases3)
      note ds = dispatch_store [OF d]
      show ?thesis
      proof (cases r)
        case Throws
        with ds have "store3 = store2" by simp
        moreover from c Some False g up1 nf d Throws
        have "store' = store3" "reply = Error500"
          by (auto simp add: chatTurn_def Let_def sid0_def [symmetric] cl_def [symmetric]
                u1_def [symmetric] split: prod.splits)
        ultimately show ?thesis using tc2 by simp
      next
        case (Returns rt)
        from c Some False g up1 nf d Returns
        have "store' = snd (updateState store3 sid0 (final rt))" "reply = Json200 rt sid0"
          by (auto simp add: chatTurn_def Let_def sid0_def [symmetric] cl_def [symmetric]
                u1_def [symmetric] final_def split: prod.splits)
        moreover have "sid \<noteq> sid0 \<Longrightarrow> turnCountOf store3 sid = turnCountOf store sid"
          using dispatch_store [OF d, of sid] tc2 [of sid] by simp
        ultimately show ?thesis using fin [of store3 rt sid] by auto
      qed
    qed
  qed
qed

lemma chat_Some:
  "chat env store req = Some r \<Longrightarrow> r = chatTurn env store req \<and> \<not> onInheritedKey env req"
  by (auto simp add: chat_def split: if_splits)

lemma chat_followed:
  "\<not> inheritedKey (sessionIdOf env req) \<Longrightarrow> chat env store req = Some (chatTurn env store req)"
  by (simp add: chat_def onInheritedKey_def split: option.splits)

lemma runTurns_turnCount:
  "runTurns store turns = Some (store', replies) \<Longrightarrow>
   turnCountOf store' sid = turnCountOf store sid + length (filter (answeredFor sid) replies)"
proof (induction turns arbitrary: store store' replies)
  case Nil
  then show ?case by simp
next
  case (Cons t turns)
  obtain env req where t: "t = (env, req)" by (cases t)
  from Cons.prems t obtain store1 reply calls store2 replies2
    where ch: "chat env store req = Some (store1, reply, calls)"
      and rest: "runTurns store1 turns = Some (store2, replies2)"
      and res: "store' = store2" "replies = reply # replies2"
    by (auto split: option.splits)
  from chat_Some [OF ch] have "chatTurn env store req = (store1, reply, calls)" by simp
  from chatTurn_turnCount [OF this, of sid] Cons.IH [OF rest] res
  show ?case by simp
qed

lemma runTurns_followed:
  "\<forall>(env, req)\<in>set turns. \<not> inheritedKey (sessionIdOf env req) \<Longrightarrow>
   runTurns store turns \<noteq> None"
proof (induction turns arbitrary: store)
  case Nil
  show ?case by simp
next
  case (Cons t turns)
  obtain env req where t: "t = (env, req)" by (cases t)
  from Cons.prems t have c: "chat env store req = Some (chatTurn env store req)"
    by (simp add: chat_followed)
  from Cons.prems have "runTurns (fst (chatTurn env store req)) turns \<noteq> None"
    by (intro Cons.IH) simp
  with c show ?case
    unfolding t by (cases "chatTurn env store req") auto
qed

text \<open>
  C2, as the code has it. A run of turns on session ids that are not inherited keys is
  followed to its end. Over a run that is followed, the turn counter stored for a
  session grows by the number of turns the handler answered with a response under that
  session id, by the fallback path or after dispatch; for a session with no state at the
  start it equals that number. Each such turn adds exactly one, also when the turn
  issues two context updates; a turn that ends in the 400 or 500 error adds nothing.
\<close>

theorem turn_counter:
  "(runTurns store turns = Some (store', replies) \<longrightarrow>
      turnCountOf store' sid
        = turnCountOf store sid + length (filter (answeredFor sid) replies)
      \<and> (store sid = None \<longrightarrow>
           turnCountOf store' sid = length (filter (answeredFor sid) replies)))
   \<and> (chat env store req = Some (store1, reply, calls) \<longrightarrow>
        turnCountOf store1 sid
          = turnCountOf store sid + (if answeredFor sid reply then 1 else 0))
   \<and> ((\<forall>(env, req)\<in>set turns. \<not> inheritedKey (sessionIdOf env req)) \<longrightarrow>
        runTurns store turns \<noteq> None)"
proof -
  have a: "turnCountOf store' sid
      = turnCountOf store sid + length (filter (answeredFor sid) replies)
      \<and> (store sid = None \<longrightarrow>
           turnCountOf store' sid = length (filter (answeredFor sid) replies))"
    if r: "runTurns store turns = Some (store', replies)"
    using runTurns_turnCount [OF r, of sid] by (simp add: turnCountOf_def)
  have b: "turnCountOf store1 sid
      = turnCountOf store sid + (if answeredFor sid reply then 1 else 0)"
    if c: "chat env store req = Some (store1, reply, calls)"
  proof -
    from chat_Some [OF c] have "chatTurn env store req = (store1, reply, calls)" by simp
    from chatTurn_turnCount [OF this] show ?thesis .
  qed
  have c: "runTurns store turns \<noteq> None"
    if "\<forall>(env, req)\<in>set turns. \<not> inheritedKey (sessionIdOf env req)"
    using that by (rule runTurns_followed)
  from a b c show ?thesis by blast
qed

lemma sample_replies:
  "map_option snd (runTurns initialStore sampleTurns) =
     Some [Json200 (str ''Maaf, saya tidak yakin apa yang Anda maksud. Bisakah Anda menjelaskan dengan lebih detail?'') (str ''s1''),
           Json200 (str ''Maaf, saya tidak menemukan produk yang sesuai dengan pencarian Anda. Silakan coba dengan kata kunci lain.'') (str ''s1''),
           Json200 (str ''Halo! Selamat datang di Aninka Fashion. Ada yang bisa saya bantu hari ini?'') (str ''s1''),
           Error500]"
  by code_simp

theorem turn_counter_witness:
  "\<exists>store'. runTurns initialStore sampleTurns =
       Some (store',
         [Json200 (str ''Maaf, saya tidak yakin apa yang Anda maksud. Bisakah Anda menjelaskan dengan lebih detail?'') (str ''s1''),
          Json200 (str ''Maaf, saya tidak menemukan produk yang sesuai dengan pencarian Anda. Silakan coba dengan kata kunci lain.'') (str ''s1''),
          Json200 (str ''Halo! Selamat datang di Aninka Fashion. Ada yang bisa saya bantu hari ini?'') (str ''s1''),
          Error500])
     \<and> initialStore (str ''s1'') = None
     \<and> turnCountOf store' (str ''s1'') = 3"
proof -
  let ?replies =
    "[Json200 (str ''Maaf, saya tidak yakin apa yang Anda maksud. Bisakah Anda menjelaskan dengan lebih detail?'') (str ''s1''),
      Json200 (str ''Maaf, saya tidak menemukan produk yang sesuai dengan pencarian Anda. Silakan coba dengan kata kunci lain.'') (str ''s1''),
      Json200 (str ''Halo! Selamat datang di Aninka Fashion. Ada yang bisa saya bantu hari ini?'') (str ''s1''),
      Error500]"
  from sample_replies obtain store' where r: "runTurns initialStore sampleTurns = Some (store', ?replies)"
    by (cases "runTurns initialStore sampleTurns") auto
  have h: "initialStore (str ''s1'') = None" by (simp add: initialStore_def)
  from turn_counter [of initialStore sampleTurns store' ?replies "str ''s1''"] r h
  have "turnCountOf store' (str ''s1'') = length (filter (answeredFor (str ''s1'')) ?replies)"
    by blast
  then have "turnCountOf store' (str ''s1'') = 3" by simp
  with r h show ?thesis by blast
qed

text \<open>
  C2 as stated fails: the first turn of session "s1" with the message "fitur" passes the
  fallback gate and is dispatched to the general responder, which throws; the handler
  replies with the 500 error and the stored turn counter is still 0 after the turn.
\<close>

theorem turn_counter_counterexample:
  "\<not> onInheritedKey sampleEnv (sampleRequest (str ''fitur'') None)
   \<and> \<not> shouldUseFallback
         (classifyIntent (str ''fitur'')
            (Some (fst (getConversationState initialStore (str ''s1'')))))
   \<and> chat sampleEnv initialStore (sampleRequest (str ''fitur'') None)
       = Some (chatTurn sampleEnv initialStore (sampleRequest (str ''fitur'') None))
   \<and> snd (chatTurn sampleEnv initialStore (sampleRequest (str ''fitur'') None))
       = (Error500, [CallGetGroqResponse (str ''fitur'')])
   \<and> turnCountOf (fst (chatTurn sampleEnv initialStore (sampleRequest (str ''fitur'') None)))
        (str ''s1'') = 0"
proof -
  have a: "\<not> onInheritedKey sampleEnv (sampleRequest (str ''fitur'') None)" by code_simp
  have b: "\<not> shouldUseFallback
         (classifyIntent (str ''fitur'')
            (Some (fst (getConversationState initialStore (str ''s1'')))))"
    by code_simp
  from a have c: "chat sampleEnv initialStore (sampleRequest (str ''fitur'') None)
       = Some (chatTurn sampleEnv initialStore (sampleRequest (str ''fitur'') None))"
    by (simp add: chat_def)
  have d: "snd (chatTurn sampleEnv initialStore (sampleRequest (str ''fitur'') None))
       = (Error500, [CallGetGroqResponse (str ''fitur'')])"
    by code_simp
  have e: "turnCountOf (fst (chatTurn sampleEnv initialStore (sampleRequest (str ''fitur'') None)))
        (str ''s1'') = 0"
    by code_simp
  from a b c d e show ?thesis by (intro conjI)
qed

lemma fallback_intent:
  assumes "shouldUseFallback (classifyIntent m st)"
  shows "intent (classifyIntent m st) = GENERAL_QUERY"
proof (cases "noEntityRule m")
  case False
  from classifyIntent_entity_rule [OF False, of st] assms show ?thesis
    by (auto simp add: shouldUseFallback_def)
next
  case True
  show ?thesis
  proof (cases "continuationIntent st")
    case None
    with True show ?thesis by (simp add: classifyIntent_default)
  next
    case (Some i)
    with True assms show ?thesis
      by (simp add: classifyIntent_continue shouldUseFallback_def)
  qed
qed

lemma userStatusCase_absent:
  "\<not> (truthyStr (user_id (entities cl)) \<and> truthyStr ck) \<Longrightarrow>
   userStatusCase env cl ck = (Returns loginFirstText, [])"
  by (auto simp add: userStatusCase_def truthyStr_def split: option.splits)

lemma userStatusCase_present:
  "user_id (entities cl) = Some uid \<Longrightarrow> uid \<noteq> [] \<Longrightarrow> c \<noteq> [] \<Longrightarrow>
   userStatusCase env cl (Some c) =
     (Returns (case getUserStatusExternal env uid c of
                 Throws \<Rightarrow> statusUnavailableText
               | Returns None \<Rightarrow> userNotFoundText
               | Returns (Some u) \<Rightarrow>
                   (case formatUser env u of Throws \<Rightarrow> statusUnavailableText | Returns t \<Rightarrow> t)),
      [CallGetUserStatusExternal uid c])"
  by (simp add: userStatusCase_def catching_def callThen_def formatUserStatusResponse_def
        split: outcome.splits option.splits)

lemma chatTurn_unfold:
  assumes "body_message req = Some msg" "msg \<noteq> []"
  shows "chatTurn env store req =
     (let sid = sessionIdOf env req;
          cs = fst (getConversationState store sid);
          store1 = snd (getConversationState store sid);
          cl = classifyIntent msg (Some cs);
          store2 = snd (updateState store1 sid
                     (emptyUpdate\<lparr>u_currentIntent := Some (Some (intent cl)),
                                   u_confidence := Some (confidence cl),
                                   u_entities := Some (entities cl)\<rparr>))
      in if shouldUseFallback cl
         then (snd (updateState store2 sid
                  (emptyUpdate\<lparr>u_context :=
                     Some (turnContext msg (getFallbackResponse env) cs (intent cl))\<rparr>)),
               Json200 (getFallbackResponse env) sid, [])
         else (case dispatch env store2 sid msg cs cl (cookie_aninka_session req) of
                 (Throws, store3, calls) \<Rightarrow> (store3, Error500, calls)
               | (Returns responseText, store3, calls) \<Rightarrow>
                   (snd (updateState store3 sid
                      (emptyUpdate\<lparr>u_context :=
                         Some (turnContext msg responseText cs (intent cl))\<rparr>)),
                    Json200 responseText sid, calls)))"
  by (simp add: chatTurn_def assms Let_def case_prod_beta split: outcome.splits)

lemma chatTurn_user_status:
  assumes m: "body_message req = Some msg" "msg \<noteq> []"
    and i: "intent (classifyIntent msg
              (Some (fst (getConversationState store (sessionIdOf env req))))) = USER_STATUS"
    and us: "userStatusCase env
               (classifyIntent msg (Some (fst (getConversationState store (sessionIdOf env req)))))
               (cookie_aninka_session req) = (Returns rt, calls)"
  shows "snd (chatTurn env store req) = (Json200 rt (sessionIdOf env req), calls)"
proof -
  let ?cl = "classifyIntent msg (Some (fst (getConversationState store (sessionIdOf env req))))"
  from fallback_intent [of msg "Some (fst (getConversationState store (sessionIdOf env req)))"] i
  have nf: "\<not> shouldUseFallback ?cl" by auto
  from i us have d: "dispatch env st (sessionIdOf env req) msg cs ?cl (cookie_aninka_session req)
      = (Returns rt, st, calls)" for st cs
    by (simp add: dispatch_def)
  show ?thesis
    by (simp add: chatTurn_unfold [OF m] Let_def nf d)
qed

lemma dispatch_user_status:
  "intent cl = USER_STATUS \<Longrightarrow>
   dispatch env store sid msg cs cl cookie
     = (fst (userStatusCase env cl cookie), store, snd (userStatusCase env cl cookie))"
  by (simp add: dispatch_def case_prod_beta)

text \<open>
  C9. In the USER_STATUS branch of the handler's switch, for every request: the
  user-status lookup is called exactly when the message gave a user id and the session
  cookie is present (both non-empty), and then it is the only external call. If either
  is missing the response text is the fixed "please log in" text and no external call is
  made. If the lookup throws, or formatting its result throws, the response text is the
  fixed text that the membership information cannot be reached; if the lookup comes back
  with no user, it is the fixed text that the user was not found. No mock lookup is
  made, and the branch leaves the table alone. On a session id that is not an inherited
  key, the handler replies with that response text.
\<close>

theorem user_status_gate:
  "intent cl = USER_STATUS \<longrightarrow>
     (\<not> (truthyStr (user_id (entities cl)) \<and> truthyStr cookie) \<longrightarrow>
        dispatch env store sid msg cs cl cookie = (Returns loginFirstText, store, []))
     \<and> (user_id (entities cl) = Some uid \<and> uid \<noteq> [] \<and> cookie = Some ck \<and> ck \<noteq> [] \<longrightarrow>
        dispatch env store sid msg cs cl cookie =
          (Returns
             (case getUserStatusExternal env uid ck of
                Throws \<Rightarrow> statusUnavailableText
              | Returns None \<Rightarrow> userNotFoundText
              | Returns (Some u) \<Rightarrow>
                  (case formatUser env u of
                     Throws \<Rightarrow> statusUnavailableText
                   | Returns t \<Rightarrow> t)),
           store, [CallGetUserStatusExternal uid ck]))
     \<and> ((\<exists>u c. CallGetUserStatusExternal u c
              \<in> set (snd (snd (dispatch env store sid msg cs cl cookie))))
          = (truthyStr (user_id (entities cl)) \<and> truthyStr cookie))
     \<and> (body_message req = Some msg \<and> msg \<noteq> [] \<and> \<not> inheritedKey (sessionIdOf env req)
          \<and> cl = classifyIntent msg
                   (Some (fst (getConversationState store (sessionIdOf env req))))
          \<and> cookie = cookie_aninka_session req \<longrightarrow>
        (\<not> (truthyStr (user_id (entities cl)) \<and> truthyStr cookie) \<longrightarrow>
           map_option snd (chat env store req)
             = Some (Json200 loginFirstText (sessionIdOf env req), []))
        \<and> (user_id (entities cl) = Some uid \<and> uid \<noteq> [] \<and> cookie = Some ck \<and> ck \<noteq> [] \<longrightarrow>
           map_option snd (chat env store req) =
             Some (Json200
                     (case getUserStatusExternal env uid ck of
                        Throws \<Rightarrow> statusUnavailableText
                      | Returns None \<Rightarrow> userNotFoundText
                      | Returns (Some u) \<Rightarrow>
                          (case formatUser env u of
                             Throws \<Rightarrow> statusUnavailableText
                           | Returns t \<Rightarrow> t))
                     (sessionIdOf env req),
                   [CallGetUserStatusExternal uid ck])))"
proof (intro impI)
  assume i: "intent cl = USER_STATUS"
  let ?text = "case getUserStatusExternal env uid ck of
                Throws \<Rightarrow> statusUnavailableText
              | Returns None \<Rightarrow> userNotFoundText
              | Returns (Some u) \<Rightarrow>
                  (case formatUser env u of
                     Throws \<Rightarrow> statusUnavailableText
                   | Returns t \<Rightarrow> t)"
  note d = dispatch_user_status [OF i]
  have a: "dispatch env store sid msg cs cl cookie = (Returns loginFirstText, store, [])"
    if "\<not> (truthyStr (user_id (entities cl)) \<and> truthyStr cookie)"
    by (simp add: d userStatusCase_absent [OF that])
  have b: "dispatch env store sid msg cs cl cookie
      = (Returns ?text, store, [CallGetUserStatusExternal uid ck])"
    if "user_id (entities cl) = Some uid \<and> uid \<noteq> [] \<and> cookie = Some ck \<and> ck \<noteq> []"
    using that by (simp add: d userStatusCase_present)
  have c: "(\<exists>u c. CallGetUserStatusExternal u c
              \<in> set (snd (snd (dispatch env store sid msg cs cl cookie))))
          = (truthyStr (user_id (entities cl)) \<and> truthyStr cookie)"
  proof (cases "truthyStr (user_id (entities cl)) \<and> truthyStr cookie")
    case False
    then show ?thesis by (simp add: d userStatusCase_absent)
  next
    case True
    then obtain uid' ck' where "user_id (entities cl) = Some uid'" "uid' \<noteq> []"
        "cookie = Some ck'" "ck' \<noteq> []"
      by (auto simp add: truthyStr_def split: option.splits)
    with True show ?thesis by (simp add: d userStatusCase_present)
  qed
  have e: "(\<not> (truthyStr (user_id (entities cl)) \<and> truthyStr cookie) \<longrightarrow>
           map_option snd (chat env store req)
             = Some (Json200 loginFirstText (sessionIdOf env req), []))
        \<and> (user_id (entities cl) = Some uid \<and> uid \<noteq> [] \<and> cookie = Some ck \<and> ck \<noteq> [] \<longrightarrow>
           map_option snd (chat env store req) =
             Some (Json200 ?text (sessionIdOf env req), [CallGetUserStatusExternal uid ck]))"
    if h: "body_message req = Some msg \<and> msg \<noteq> [] \<and> \<not> inheritedKey (sessionIdOf env req)
          \<and> cl = classifyIntent msg
                   (Some (fst (getConversationState store (sessionIdOf env req))))
          \<and> cookie = cookie_aninka_session req"
  proof -
    from h have m: "body_message req = Some msg" "msg \<noteq> []"
      and ord: "\<not> inheritedKey (sessionIdOf env req)"
      and cl: "cl = classifyIntent msg
                   (Some (fst (getConversationState store (sessionIdOf env req))))"
      and ck: "cookie = cookie_aninka_session req"
      by simp_all
    note ch = chat_followed [OF ord, of store]
    note cu = chatTurn_user_status [OF m i [unfolded cl]]
    have e1: "map_option snd (chat env store req)
             = Some (Json200 loginFirstText (sessionIdOf env req), [])"
      if n: "\<not> (truthyStr (user_id (entities cl)) \<and> truthyStr cookie)"
      using cu [OF userStatusCase_absent [OF n, unfolded cl ck]] by (simp add: ch)
    have e2: "map_option snd (chat env store req) =
             Some (Json200 ?text (sessionIdOf env req), [CallGetUserStatusExternal uid ck])"
      if p: "user_id (entities cl) = Some uid \<and> uid \<noteq> [] \<and> cookie = Some ck \<and> ck \<noteq> []"
    proof -
      from p have p1: "user_id (entities cl) = Some uid" and p2: "uid \<noteq> []"
        and p3: "cookie_aninka_session req = Some ck" and p4: "ck \<noteq> []"
        by (simp_all add: ck)
      from userStatusCase_present [OF p1 [unfolded cl] p2 p4, of env] p3
      have "userStatusCase env
               (classifyIntent msg (Some (fst (getConversationState store (sessionIdOf env req)))))
               (cookie_aninka_session req) = (Returns ?text, [CallGetUserStatusExternal uid ck])"
        by simp
      from cu [OF this] show ?thesis by (simp add: ch)
    qed
    from e1 e2 show ?thesis by blast
  qed
  from a b c e
  show "(\<not> (truthyStr (user_id (entities cl)) \<and> truthyStr cookie) \<longrightarrow>
        dispatch env store sid msg cs cl cookie = (Returns loginFirstText, store, []))
     \<and> (user_id (entities cl) = Some uid \<and> uid \<noteq> [] \<and> cookie = Some ck \<and> ck \<noteq> [] \<longrightarrow>
        dispatch env store sid msg cs cl cookie =
          (Returns ?text, store, [CallGetUserStatusExternal uid ck]))
     \<and> ((\<exists>u c. CallGetUserStatusExternal u c
              \<in> set (snd (snd (dispatch env store sid msg cs cl cookie))))
          = (truthyStr (user_id (entities cl)) \<and> truthyStr cookie))
     \<and> (body_message req = Some msg \<and> msg \<noteq> [] \<and> \<not> inheritedKey (sessionIdOf env req)
          \<and> cl = classifyIntent msg
                   (Some (fst (getConversationState store (sessionIdOf env req))))
          \<and> cookie = cookie_aninka_session req \<longrightarrow>
        (\<not> (truthyStr (user_id (entities cl)) \<and> truthyStr cookie) \<longrightarrow>
           map_option snd (chat env store req)
             = Some (Json200 loginFirstText (sessionIdOf env req), []))
        \<and> (user_id (entities cl) = Some uid \<and> uid \<noteq> [] \<and> cookie = Some ck \<and> ck \<noteq> [] \<longrightarrow>
           map_option snd (chat env store req) =
             Some (Json200 ?text (sessionIdOf env req), [CallGetUserStatusExternal uid ck])))"
    by blast
qed

theorem user_status_gate_witness:
  "intent (classifyIntent (str ''keanggotaan member 77'')
       (Some (fst (getConversationState initialStore (str ''s1''))))) = USER_STATUS
   \<and> \<not> inheritedKey (str ''s1'')
   \<and> map_option snd
        (chat sampleEnv initialStore (sampleRequest (str ''keanggotaan member 77'') None))
       = Some (Json200 loginFirstText (str ''s1''), [])
   \<and> map_option snd
        (chat sampleEnv initialStore
           (sampleRequest (str ''keanggotaan member 77'') (Some (str ''ck''))))
       = Some (Json200 userNotFoundText (str ''s1''),
               [CallGetUserStatusExternal (str ''77'') (str ''ck'')])"
proof -
  let ?m = "str ''keanggotaan member 77''"
  let ?r1 = "sampleRequest ?m None"
  let ?r2 = "sampleRequest ?m (Some (str ''ck''))"
  define cl where "cl = classifyIntent ?m (Some (fst (getConversationState initialStore (str ''s1''))))"
  have i: "intent cl = USER_STATUS" unfolding cl_def by code_simp
  have u: "user_id (entities cl) = Some (str ''77'')" unfolding cl_def by code_simp
  have ne: "?m \<noteq> []" by (simp add: str_def)
  have n7: "str ''77'' \<noteq> []" and nck: "str ''ck'' \<noteq> []" by (simp_all add: str_def)
  have ord: "\<not> inheritedKey (str ''s1'')" by code_simp
  have m1: "body_message ?r1 = Some ?m" and m2: "body_message ?r2 = Some ?m"
    by (simp_all add: sampleRequest_def)
  have s1: "sessionIdOf sampleEnv ?r1 = str ''s1''" and s2: "sessionIdOf sampleEnv ?r2 = str ''s1''"
    by (simp_all add: sessionIdOf_def sampleRequest_def str_def)
  have k1: "cookie_aninka_session ?r1 = None" and k2: "cookie_aninka_session ?r2 = Some (str ''ck'')"
    by (simp_all add: sampleRequest_def)
  have e: "getUserStatusExternal sampleEnv (str ''77'') (str ''ck'') = Returns None"
    by (simp add: sampleEnv_def)
  have h1: "body_message ?r1 = Some ?m \<and> ?m \<noteq> [] \<and> \<not> inheritedKey (sessionIdOf sampleEnv ?r1)
      \<and> cl = classifyIntent ?m
               (Some (fst (getConversationState initialStore (sessionIdOf sampleEnv ?r1))))
      \<and> None = cookie_aninka_session ?r1"
    using m1 ne ord by (simp add: s1 k1 cl_def)
  have h2: "body_message ?r2 = Some ?m \<and> ?m \<noteq> [] \<and> \<not> inheritedKey (sessionIdOf sampleEnv ?r2)
      \<and> cl = classifyIntent ?m
               (Some (fst (getConversationState initialStore (sessionIdOf sampleEnv ?r2))))
      \<and> Some (str ''ck'') = cookie_aninka_session ?r2"
    using m2 ne ord by (simp add: s2 k2 cl_def)
  have t1: "\<not> (truthyStr (user_id (entities cl)) \<and> truthyStr None)"
    by (simp add: truthyStr_def)
  from user_status_gate [of cl None sampleEnv initialStore "str ''s1''" ?m undefined
      "str ''77''" "str ''ck''" ?r1] i h1 t1
  have a: "map_option snd (chat sampleEnv initialStore ?r1)
      = Some (Json200 loginFirstText (sessionIdOf sampleEnv ?r1), [])"
    by blast
  have t2: "user_id (entities cl) = Some (str ''77'') \<and> str ''77'' \<noteq> []
      \<and> Some (str ''ck'') = Some (str ''ck'') \<and> str ''ck'' \<noteq> []"
    using u n7 nck by simp
  from user_status_gate [of cl "Some (str ''ck'')" sampleEnv initialStore "str ''s1''" ?m undefined
      "str ''77''" "str ''ck''" ?r2] i h2 t2
  have b: "map_option snd (chat sampleEnv initialStore ?r2)
      = Some (Json200
               (case getUserStatusExternal sampleEnv (str ''77'') (str ''ck'') of
                  Throws \<Rightarrow> statusUnavailableText
                | Returns None \<Rightarrow> userNotFoundText
                | Returns (Some u) \<Rightarrow>
                    (case formatUser sampleEnv u of
                       Throws \<Rightarrow> statusUnavailableText
                     | Returns t \<Rightarrow> t))
               (sessionIdOf sampleEnv ?r2),
              [CallGetUserStatusExternal (str ''77'') (str ''ck'')])"
    by blast
  from a have a': "map_option snd (chat sampleEnv initialStore ?r1)
      = Some (Json200 loginFirstText (str ''s1''), [])"
    by (simp only: s1)
  from b have b': "map_option snd (chat sampleEnv initialStore ?r2)
      = Some (Json200 userNotFoundText (str ''s1''),
              [CallGetUserStatusExternal (str ''77'') (str ''ck'')])"
    by (simp add: s2 e)
  from i ord a' b' show ?thesis unfolding cl_def by (intro conjI)
qed

lemma classify_not_fallback:
  "(case st of None \<Rightarrow> True | Some s \<Rightarrow> currentIntent s \<noteq> Some FALLBACK) \<Longrightarrow>
   intent (classifyIntent m st) \<noteq> FALLBACK"
proof (cases "noEntityRule m")
  case False
  from classifyIntent_entity_rule [OF False, of st] show ?thesis by auto
next
  case True
  assume h: "case st of None \<Rightarrow> True | Some s \<Rightarrow> currentIntent s \<noteq> Some FALLBACK"
  show ?thesis
  proof (cases "continuationIntent st")
    case None
    with True show ?thesis by (simp add: classifyIntent_default)
  next
    case (Some i)
    with True h show ?thesis
      by (cases st) (auto simp add: classifyIntent_continue continuationIntent_Some
            continuationIntent_None)
  qed
qed

lemma classify_confidence:
  "confidence (classifyIntent m st) \<in> {0.3, 0.5, 0.7, 0.75, 0.85, 0.9}"
proof (cases "noEntityRule m")
  case False
  from classifyIntent_entity_rule [OF False, of st] show ?thesis by auto
next
  case True
  show ?thesis
  proof (cases "continuationIntent st")
    case None
    with True show ?thesis by (simp add: classifyIntent_default)
  next
    case (Some i)
    with True show ?thesis by (simp add: classifyIntent_continue)
  qed
qed

lemma snapshot_not_fallback:
  "noFallbackStored store \<Longrightarrow>
   currentIntent (fst (getConversationState store sid)) \<noteq> Some FALLBACK"
  by (auto simp add: noFallbackStored_def getConversationState_def createConversationState_def
        split: option.splits)

lemma getConversationState_noFallback:
  "noFallbackStored store \<Longrightarrow> noFallbackStored (snd (getConversationState store sid))"
  by (auto simp add: noFallbackStored_def getConversationState_def createConversationState_def
        split: option.splits if_splits)

lemma updateState_noFallback:
  assumes "noFallbackStored store"
    and "u_currentIntent u \<noteq> Some (Some FALLBACK)"
  shows "noFallbackStored (snd (updateState store sid u))"
  using assms snapshot_not_fallback [OF assms(1), of sid]
  by (auto simp add: noFallbackStored_def updateState_eq updateConversationState_def
        spreadReq_def split: option.splits if_splits)

lemma context_update_noFallback:
  "noFallbackStored store \<Longrightarrow>
   noFallbackStored (snd (updateState store sid (emptyUpdate\<lparr>u_context := Some c\<rparr>)))"
  by (rule updateState_noFallback) (simp_all add: emptyUpdate_def)

lemma productSearchCase_noFallback:
  assumes "noFallbackStored store"
    and "productSearchCase env store sid msg cs cl ck = (r, store', calls)"
  shows "noFallbackStored store'"
proof -
  have "store' = store \<or> (\<exists>c. store' = snd (updateState store sid (emptyUpdate\<lparr>u_context := Some c\<rparr>)))"
    using assms(2)
    by (auto simp add: productSearchCase_def groqCase_def Let_def
          split: if_splits prod.splits outcome.splits) (metis snd_conv)+
  with assms(1) context_update_noFallback show ?thesis by auto
qed

lemma orderTrackingCase_noFallback:
  assumes "noFallbackStored store"
    and "orderTrackingCase env store sid msg cs cl ck = (r, store', calls)"
  shows "noFallbackStored store'"
proof -
  have "store' = store \<or> (\<exists>c. store' = snd (updateState store sid (emptyUpdate\<lparr>u_context := Some c\<rparr>)))"
    using assms(2)
    by (auto simp add: orderTrackingCase_def groqCase_def Let_def
          split: if_splits prod.splits outcome.splits option.splits) (metis snd_conv)+
  with assms(1) context_update_noFallback show ?thesis by auto
qed

lemma dispatch_noFallback:
  assumes "noFallbackStored store"
    and "dispatch env store sid msg cs cl ck = (r, store', calls)"
  shows "noFallbackStored store'"
proof (cases "intent cl")
  case PRODUCT_SEARCH
  with assms productSearchCase_noFallback [of store env sid msg cs cl ck r store' calls]
  show ?thesis by (simp add: dispatch_def)
next
  case ORDER_TRACKING
  with assms orderTrackingCase_noFallback [of store env sid msg cs cl ck r store' calls]
  show ?thesis by (simp add: dispatch_def)
qed (use assms in \<open>auto simp add: dispatch_def groqCase_def split: prod.splits\<close>)

lemma chatTurn_noFallback:
  assumes inv: "noFallbackStored store"
  shows "noFallbackStored (fst (chatTurn env store req))"
proof (cases "body_message req")
  case None
  with inv show ?thesis by (simp add: chatTurn_def)
next
  case (Some msg)
  show ?thesis
  proof (cases "msg = []")
    case True
    with inv Some show ?thesis by (simp add: chatTurn_def)
  next
    case False
    define sid where "sid = sessionIdOf env req"
    define cs where "cs = fst (getConversationState store sid)"
    define cl where "cl = classifyIntent msg (Some cs)"
    define store2 where "store2 = snd (updateState (snd (getConversationState store sid)) sid
        (emptyUpdate\<lparr>u_currentIntent := Some (Some (intent cl)),
                      u_confidence := Some (confidence cl),
                      u_entities := Some (entities cl)\<rparr>))"
    from snapshot_not_fallback [OF inv, of sid]
    have "intent cl \<noteq> FALLBACK"
      unfolding cl_def cs_def by (intro classify_not_fallback) simp
    then have inv2: "noFallbackStored store2"
      unfolding store2_def
      by (intro updateState_noFallback getConversationState_noFallback inv)
         (simp add: emptyUpdate_def)
    obtain r store3 calls where d: "dispatch env store2 sid msg cs cl (cookie_aninka_session req)
        = (r, store3, calls)"
      by (metis prod_cases3)
    note inv3 = dispatch_noFallback [OF inv2 d]
    show ?thesis
      using inv2 inv3 d context_update_noFallback
      by (cases r)
         (simp_all add: chatTurn_unfold [OF Some False] Let_def sid_def [symmetric]
            cs_def [symmetric] cl_def [symmetric] store2_def [symmetric])
  qed
qed

lemma runTurns_noFallback:
  "noFallbackStored store \<Longrightarrow> runTurns store turns = Some (store', replies) \<Longrightarrow>
   noFallbackStored store'"
proof (induction turns arbitrary: store store' replies)
  case Nil
  then show ?case by simp
next
  case (Cons t turns)
  obtain env req where t: "t = (env, req)" by (cases t)
  from Cons.prems(2) t obtain store1 reply calls replies2
    where ch: "chat env store req = Some (store1, reply, calls)"
      and rest: "runTurns store1 turns = Some (store', replies2)"
    by (auto split: option.splits)
  from chat_Some [OF ch] have "store1 = fst (chatTurn env store req)" by (metis fst_conv)
  with chatTurn_noFallback [OF Cons.prems(1), of env req] have "noFallbackStored store1" by simp
  from Cons.IH [OF this rest] show ?case .
qed

text \<open>
  C10. For every message and every prior state the confidence is one of 0.3, 0.5, 0.7,
  0.75, 0.85, 0.9, hence between 0.3 and 0.9. The intent is never FALLBACK: not with no
  prior state, not with a prior state whose intent is not FALLBACK, and the handler
  passes no other. Its table starts empty and holds no state with the intent FALLBACK
  after any run of turns, so the state it fetches for a session, stored or fresh, never
  has that intent.
\<close>

theorem classification_range:
  "confidence (classifyIntent m st) \<in> {0.3, 0.5, 0.7, 0.75, 0.85, 0.9}
   \<and> 0.3 \<le> confidence (classifyIntent m st) \<and> confidence (classifyIntent m st) \<le> 0.9
   \<and> intent (classifyIntent m None) \<noteq> FALLBACK
   \<and> (st = Some s \<and> currentIntent s \<noteq> Some FALLBACK \<longrightarrow>
        intent (classifyIntent m st) \<noteq> FALLBACK)
   \<and> noFallbackStored initialStore
   \<and> (noFallbackStored store \<and> runTurns store turns = Some (store', replies) \<longrightarrow>
        noFallbackStored store'
        \<and> intent (classifyIntent m (Some (fst (getConversationState store' sid)))) \<noteq> FALLBACK)"
proof -
  note c = classify_confidence [of m st]
  from c have c2: "0.3 \<le> confidence (classifyIntent m st)"
    and c3: "confidence (classifyIntent m st) \<le> 0.9"
    by auto
  have n: "intent (classifyIntent m None) \<noteq> FALLBACK"
    by (rule classify_not_fallback) simp
  have s: "intent (classifyIntent m st) \<noteq> FALLBACK"
    if "st = Some s \<and> currentIntent s \<noteq> Some FALLBACK"
    using that by (intro classify_not_fallback) auto
  have i: "noFallbackStored initialStore"
    by (simp add: noFallbackStored_def initialStore_def)
  have r: "noFallbackStored store'
        \<and> intent (classifyIntent m (Some (fst (getConversationState store' sid)))) \<noteq> FALLBACK"
    if h: "noFallbackStored store \<and> runTurns store turns = Some (store', replies)"
  proof -
    from h have inv: "noFallbackStored store'"
      using runTurns_noFallback by blast
    from snapshot_not_fallback [OF inv, of sid]
    have "intent (classifyIntent m (Some (fst (getConversationState store' sid)))) \<noteq> FALLBACK"
      by (intro classify_not_fallback) simp
    with inv show ?thesis by simp
  qed
  from c c2 c3 n s i r show ?thesis by blast
qed

theorem classification_range_witness:
  "\<exists>store'. runTurns initialStore sampleTurns =
       Some (store',
         [Json200 (str ''Maaf, saya tidak yakin apa yang Anda maksud. Bisakah Anda menjelaskan dengan lebih detail?'') (str ''s1''),
          Json200 (str ''Maaf, saya tidak menemukan produk yang sesuai dengan pencarian Anda. Silakan coba dengan kata kunci lain.'') (str ''s1''),
          Json200 (str ''Halo! Selamat datang di Aninka Fashion. Ada yang bisa saya bantu hari ini?'') (str ''s1''),
          Error500])
     \<and> noFallbackStored initialStore
     \<and> noFallbackStored store'
     \<and> intent (classifyIntent (str ''ya, lanjutkan'')
          (Some (fst (getConversationState store' (str ''s1''))))) \<noteq> FALLBACK"
proof -
  let ?replies =
    "[Json200 (str ''Maaf, saya tidak yakin apa yang Anda maksud. Bisakah Anda menjelaskan dengan lebih detail?'') (str ''s1''),
      Json200 (str ''Maaf, saya tidak menemukan produk yang sesuai dengan pencarian Anda. Silakan coba dengan kata kunci lain.'') (str ''s1''),
      Json200 (str ''Halo! Selamat datang di Aninka Fashion. Ada yang bisa saya bantu hari ini?'') (str ''s1''),
      Error500]"
  from sample_replies obtain store' where r: "runTurns initialStore sampleTurns = Some (store', ?replies)"
    by (cases "runTurns initialStore sampleTurns") auto
  note t = classification_range [of "str ''ya, lanjutkan''" None undefined initialStore
      sampleTurns store' ?replies "str ''s1''"]
  from t have i: "noFallbackStored initialStore" by blast
  from t i r have "noFallbackStored store'
      \<and> intent (classifyIntent (str ''ya, lanjutkan'')
          (Some (fst (getConversationState store' (str ''s1''))))) \<noteq> FALLBACK"
    by blast
  with r i show ?thesis by blast
qed

end
